theory Spec2Isabelle
  imports Complex_Main "HOL-Library.AList"
begin

section \<open>The resilient data access layer (rrd/store.py)\<close>

text \<open>
  Exceptions are values. The four constructors are the exception classes that the
  \<^verbatim>\<open>except\<close> clauses of the module tell apart: \<^verbatim>\<open>AttributeError\<close>,
  \<^verbatim>\<open>MySQLdb.OperationalError\<close>, \<^verbatim>\<open>MySQLdb.IntegrityError\<close>, and every other
  subclass of \<^verbatim>\<open>Exception\<close> (its class name and its message).
\<close>

datatype exn =
    AttributeError string
  | OperationalError string
  | IntegrityError string
  | OtherError string string

fun exn_str :: "exn \<Rightarrow> string" where
  "exn_str (AttributeError m) = m"
| "exn_str (OperationalError m) = m"
| "exn_str (IntegrityError m) = m"
| "exn_str (OtherError c m) = m"

text \<open>\<^verbatim>\<open>except (AttributeError, MySQLdb.OperationalError)\<close>\<close>

fun transient :: "exn \<Rightarrow> bool" where
  "transient (AttributeError m) = True"
| "transient (OperationalError m) = True"
| "transient (IntegrityError m) = False"
| "transient (OtherError c m) = False"

text \<open>\<^verbatim>\<open>except MySQLdb.OperationalError\<close> and \<^verbatim>\<open>except MySQLdb.IntegrityError\<close>\<close>

fun is_operational :: "exn \<Rightarrow> bool" where
  "is_operational (OperationalError m) = True"
| "is_operational e = False"

fun is_integrity :: "exn \<Rightarrow> bool" where
  "is_integrity (IntegrityError m) = True"
| "is_integrity e = False"

text \<open>
  The database driver is the environment. Every call into it is recorded in a trace and
  answered by the next entry of a script: the seconds the call takes and either an
  exception or a normal return (with the data a cursor would then hold). The calls that
  were answered with a normal return are recorded a second time, in \<open>completed\<close>. An
  exhausted script answers with an immediate normal return.
\<close>

datatype call =
    Connect string
  | Cursor nat
  | Execute nat "string list"
  | Fetchall nat
  | CloseCursor nat
  | Close nat
  | Commit nat
  | Rollback nat

record answer =
  a_rows :: "int list list"
  a_lastrowid :: int
  a_rowcount :: int

datatype reply = Raises exn | Returns answer

datatype event =
    LOG_CRITICAL string
  | DB_SLOW string string rat
  | DB_RECONNECT string string rat string
  | DB_ERROR string string rat string

record world =
  script :: "(rat \<times> reply) list"
  now :: rat
  trace :: "call list"
  completed :: "call list"
  events :: "event list"
  fresh :: nat
  thread_name :: string

definition no_answer :: answer where
  "no_answer = \<lparr>a_rows = [], a_lastrowid = 0, a_rowcount = 0\<rparr>"

definition driver :: "call \<Rightarrow> world \<Rightarrow> reply \<times> world" where
  "driver c w =
     (case script w of
        [] \<Rightarrow> (Returns no_answer, w\<lparr>trace := trace w @ [c], completed := completed w @ [c]\<rparr>)
      | (d, r) # rest \<Rightarrow>
          (r, w\<lparr>script := rest, now := now w + d, trace := trace w @ [c],
               completed := completed w @ (case r of Raises e \<Rightarrow> [] | Returns y \<Rightarrow> [c])\<rparr>))"

definition emit :: "event \<Rightarrow> world \<Rightarrow> world" where
  "emit e w = w\<lparr>events := events w @ [e]\<rparr>"

text \<open>A cursor object: its identity and the attributes the module reads.\<close>

record cursor =
  cur_id :: nat
  lastrowid :: int
  rowcount :: int

record DB =
  config :: string
  conn :: "nat option"

text \<open>
  \<^verbatim>\<open>connect_db\<close>: any exception of \<^verbatim>\<open>MySQLdb.connect\<close> is logged at level critical
  and \<^verbatim>\<open>None\<close> is returned.
\<close>

definition connect_db :: "string \<Rightarrow> world \<Rightarrow> nat option \<times> world" where
  "connect_db cfg w =
     (case driver (Connect cfg) w of
        (Returns r, w1) \<Rightarrow> (Some (fresh w1), w1\<lparr>fresh := Suc (fresh w1)\<rparr>)
      | (Raises e, w1) \<Rightarrow> (None, emit (LOG_CRITICAL (''connect db: '' @ exn_str e)) w1))"

definition get_conn :: "DB \<Rightarrow> world \<Rightarrow> nat option \<times> DB \<times> world" where
  "get_conn db w =
     (case conn db of
        None \<Rightarrow> (case connect_db (config db) w of (c, w1) \<Rightarrow> (c, db\<lparr>conn := c\<rparr>, w1))
      | Some c \<Rightarrow> (Some c, db, w))"

text \<open>
  \<^verbatim>\<open>self.get_conn().cursor()\<close>: on \<^verbatim>\<open>None\<close> the attribute access raises
  \<^verbatim>\<open>AttributeError\<close>; on a connection the driver answers.
\<close>

definition none_has_no :: "string \<Rightarrow> exn" where
  "none_has_no attr = AttributeError (''NoneType object has no attribute '' @ attr)"

definition new_cursor :: "DB \<Rightarrow> world \<Rightarrow> (exn + cursor option) \<times> DB \<times> world" where
  "new_cursor db w =
     (case get_conn db w of
        (None, db1, w1) \<Rightarrow> (Inl (none_has_no ''cursor''), db1, w1)
      | (Some c, db1, w1) \<Rightarrow>
          (case driver (Cursor c) w1 of
             (Raises e, w2) \<Rightarrow> (Inl e, db1, w2)
           | (Returns r, w2) \<Rightarrow>
               (Inr (Some \<lparr>cur_id = fresh w2, lastrowid = 0, rowcount = 0\<rparr>), db1,
                w2\<lparr>fresh := Suc (fresh w2)\<rparr>)))"

text \<open>
  \<^verbatim>\<open>cursor.execute(*a, **kw)\<close> on the local variable \<^verbatim>\<open>cursor\<close>, which Python
  allows to be \<^verbatim>\<open>None\<close>. Without a positional argument the call itself is a
  \<^verbatim>\<open>TypeError\<close>.
\<close>

definition cursor_execute :: "cursor option \<Rightarrow> string list \<Rightarrow> world \<Rightarrow> (exn + cursor option) \<times> world" where
  "cursor_execute cur a w =
     (case cur of
        None \<Rightarrow> (Inl (none_has_no ''execute''), w)
      | Some c \<Rightarrow>
          (if a = [] then (Inl (OtherError ''TypeError'' ''execute() missing query''), w)
           else (case driver (Execute (cur_id c) a) w of
                   (Raises e, w1) \<Rightarrow> (Inl e, w1)
                 | (Returns r, w1) \<Rightarrow>
                     (Inr (Some (c\<lparr>lastrowid := a_lastrowid r, rowcount := a_rowcount r\<rparr>)), w1))))"

text \<open>
  One underlying attempt, the two statements
  \<^verbatim>\<open>cursor = cursor or self.get_conn().cursor(); cursor.execute(*a, **kw)\<close>
  of the \<^verbatim>\<open>try\<close> body; the handler's retry is the same with no cursor given.
\<close>

definition attempt :: "DB \<Rightarrow> world \<Rightarrow> string list \<Rightarrow> cursor option \<Rightarrow> (exn + cursor option) \<times> DB \<times> world" where
  "attempt db w a cur =
     (case (case cur of Some c \<Rightarrow> (Inr (Some c), db, w) | None \<Rightarrow> new_cursor db w) of
        (Inl e, db1, w1) \<Rightarrow> (Inl e, db1, w1)
      | (Inr v, db1, w1) \<Rightarrow>
          (case cursor_execute v a w1 of
             (Inl e, w2) \<Rightarrow> (Inl e, db1, w2)
           | (Inr v', w2) \<Rightarrow> (Inr v', db1, w2)))"

definition sql_preview :: "string list \<Rightarrow> string" where
  "sql_preview a = (case a of [] \<Rightarrow> ''unknown'' | s # rest \<Rightarrow> take 50 s)"

text \<open>
  \<^verbatim>\<open>self.conn and self.conn.close()\<close>: without a connection nothing is called; with
  one, the driver answers, and \<^verbatim>\<open>close\<close> may raise (as it does on a connection that
  is closed already).
\<close>

definition close_conn :: "DB \<Rightarrow> world \<Rightarrow> (exn + unit) \<times> world" where
  "close_conn db w =
     (case conn db of
        None \<Rightarrow> (Inr (), w)
      | Some c \<Rightarrow>
          (case driver (Close c) w of
             (Raises e, w1) \<Rightarrow> (Inl e, w1)
           | (Returns r, w1) \<Rightarrow> (Inr (), w1)))"

definition reconnect_event :: "world \<Rightarrow> string list \<Rightarrow> world \<Rightarrow> exn \<Rightarrow> event" where
  "reconnect_event w a w1 e = DB_RECONNECT (thread_name w) (sql_preview a) (now w1 - now w) (exn_str e)"

definition error_event :: "world \<Rightarrow> string list \<Rightarrow> world \<Rightarrow> exn \<Rightarrow> event" where
  "error_event w a w1 e = DB_ERROR (thread_name w) (sql_preview a) (now w1 - now w) (exn_str e)"

text \<open>
  \<^verbatim>\<open>DB.execute\<close>. The handler of the transient class logs, closes the connection,
  forgets it and runs the two statements of the attempt again. It is not itself guarded:
  an exception of \<^verbatim>\<open>close\<close> leaves the method before \<^verbatim>\<open>self.conn = None\<close>, and an
  exception of the second attempt leaves it as it is.
\<close>

definition DB_execute :: "DB \<Rightarrow> world \<Rightarrow> string list \<Rightarrow> cursor option \<Rightarrow> (exn + cursor option) \<times> DB \<times> world" where
  "DB_execute db w a kwcursor =
     (case attempt db w a kwcursor of
        (Inr cur, db1, w1) \<Rightarrow>
          (Inr cur, db1,
           (if now w1 - now w > 1 / 10
            then emit (DB_SLOW (thread_name w) (sql_preview a) (now w1 - now w)) w1
            else w1))
      | (Inl e, db1, w1) \<Rightarrow>
          (if transient e
           then (case close_conn db1 (emit (reconnect_event w a w1 e) w1) of
                   (Inl e', w2) \<Rightarrow> (Inl e', db1, w2)
                 | (Inr u, w2) \<Rightarrow> attempt (db1\<lparr>conn := None\<rparr>) w2 a None)
           else (Inl e, db1, emit (error_event w a w1 e) w1)))"

text \<open>\<^verbatim>\<open>commit\<close> and \<^verbatim>\<open>rollback\<close>: an operational error drops the connection and is
  swallowed; any other exception of the driver leaves the method.\<close>

definition DB_commit :: "DB \<Rightarrow> world \<Rightarrow> (exn + unit) \<times> DB \<times> world" where
  "DB_commit db w =
     (case conn db of
        None \<Rightarrow> (Inr (), db, w)
      | Some c \<Rightarrow>
          (case driver (Commit c) w of
             (Returns r, w1) \<Rightarrow> (Inr (), db, w1)
           | (Raises e, w1) \<Rightarrow>
               (if is_operational e then (Inr (), db\<lparr>conn := None\<rparr>, w1) else (Inl e, db, w1))))"

definition DB_rollback :: "DB \<Rightarrow> world \<Rightarrow> (exn + unit) \<times> DB \<times> world" where
  "DB_rollback db w =
     (case conn db of
        None \<Rightarrow> (Inr (), db, w)
      | Some c \<Rightarrow>
          (case driver (Rollback c) w of
             (Returns r, w1) \<Rightarrow> (Inr (), db, w1)
           | (Raises e, w1) \<Rightarrow>
               (if is_operational e then (Inr (), db\<lparr>conn := None\<rparr>, w1) else (Inl e, db, w1))))"

text \<open>
  \<^verbatim>\<open>finally: cursor and cursor.close()\<close>. Closing a cursor is not put to the script:
  it is taken to return, and leaves its entry in the trace only.
\<close>

definition finally_close :: "cursor option \<Rightarrow> world \<Rightarrow> world" where
  "finally_close cur w =
     (case cur of None \<Rightarrow> w | Some c \<Rightarrow> w\<lparr>trace := trace w @ [CloseCursor (cur_id c)]\<rparr>)"

text \<open>
  The handler \<^verbatim>\<open>except MySQLdb.IntegrityError: self.rollback()\<close> of \<^verbatim>\<open>insert\<close> and
  \<^verbatim>\<open>update\<close>, followed by the \<^verbatim>\<open>finally\<close> clause; the method then falls off its end
  and returns \<^verbatim>\<open>None\<close>. An exception that is no integrity error only passes the
  \<^verbatim>\<open>finally\<close> clause.
\<close>

definition on_error :: "exn \<Rightarrow> cursor option \<Rightarrow> DB \<Rightarrow> world \<Rightarrow> (exn + int option) \<times> DB \<times> world" where
  "on_error e cur db w =
     (if is_integrity e
      then (case DB_rollback db w of
              (Inl e', db1, w1) \<Rightarrow> (Inl e', db1, finally_close cur w1)
            | (Inr u, db1, w1) \<Rightarrow> (Inr None, db1, finally_close cur w1))
      else (Inl e, db, finally_close cur w))"

definition DB_insert :: "DB \<Rightarrow> world \<Rightarrow> string list \<Rightarrow> cursor option \<Rightarrow> (exn + int option) \<times> DB \<times> world" where
  "DB_insert db w a kwcursor =
     (case DB_execute db w a kwcursor of
        (Inl e, db1, w1) \<Rightarrow> on_error e None db1 w1
      | (Inr None, db1, w1) \<Rightarrow> on_error (none_has_no ''lastrowid'') None db1 w1
      | (Inr (Some c), db1, w1) \<Rightarrow>
          (case DB_commit db1 w1 of
             (Inl e, db2, w2) \<Rightarrow> on_error e (Some c) db2 w2
           | (Inr u, db2, w2) \<Rightarrow> (Inr (Some (lastrowid c)), db2, finally_close (Some c) w2)))"

definition DB_update :: "DB \<Rightarrow> world \<Rightarrow> string list \<Rightarrow> cursor option \<Rightarrow> (exn + int option) \<times> DB \<times> world" where
  "DB_update db w a kwcursor =
     (case DB_execute db w a kwcursor of
        (Inl e, db1, w1) \<Rightarrow> on_error e None db1 w1
      | (Inr cur, db1, w1) \<Rightarrow>
          (case DB_commit db1 w1 of
             (Inl e, db2, w2) \<Rightarrow> on_error e cur db2 w2
           | (Inr u, db2, w2) \<Rightarrow>
               (case cur of
                  None \<Rightarrow> on_error (none_has_no ''rowcount'') None db2 w2
                | Some c \<Rightarrow> (Inr (Some (rowcount c)), db2, finally_close (Some c) w2))))"

text \<open>\<^verbatim>\<open>cursor.fetchall()\<close> on the local variable \<^verbatim>\<open>cursor\<close>.\<close>

definition cursor_fetchall :: "cursor option \<Rightarrow> world \<Rightarrow> (exn + int list list) \<times> world" where
  "cursor_fetchall cur w =
     (case cur of
        None \<Rightarrow> (Inl (none_has_no ''fetchall''), w)
      | Some c \<Rightarrow>
          (case driver (Fetchall (cur_id c)) w of
             (Raises e, w1) \<Rightarrow> (Inl e, w1)
           | (Returns r, w1) \<Rightarrow> (Inr (a_rows r), w1)))"

definition DB_query_all :: "DB \<Rightarrow> world \<Rightarrow> string list \<Rightarrow> cursor option \<Rightarrow> (exn + int list list) \<times> DB \<times> world" where
  "DB_query_all db w a kwcursor =
     (case DB_execute db w a kwcursor of
        (Inl e, db1, w1) \<Rightarrow> (Inl e, db1, finally_close None w1)
      | (Inr cur, db1, w1) \<Rightarrow>
          (case cursor_fetchall cur w1 of
             (Inl e, w2) \<Rightarrow> (Inl e, db1, finally_close cur w2)
           | (Inr rows, w2) \<Rightarrow> (Inr rows, db1, finally_close cur w2)))"

definition DB_query_one :: "DB \<Rightarrow> world \<Rightarrow> string list \<Rightarrow> cursor option \<Rightarrow> (exn + int list option) \<times> DB \<times> world" where
  "DB_query_one db w a kwcursor =
     (case DB_query_all db w a kwcursor of
        (Inl e, db1, w1) \<Rightarrow> (Inl e, db1, w1)
      | (Inr rows, db1, w1) \<Rightarrow>
          (case rows of [] \<Rightarrow> (Inr None, db1, w1) | r # rest \<Rightarrow> (Inr (Some r), db1, w1)))"

fun first_column :: "int list list \<Rightarrow> exn + int list" where
  "first_column [] = Inr []"
| "first_column ([] # rows) = Inl (OtherError ''IndexError'' ''list index out of range'')"
| "first_column ((x # xs) # rows) =
     (case first_column rows of Inl e \<Rightarrow> Inl e | Inr ys \<Rightarrow> Inr (x # ys))"

definition DB_query_column :: "DB \<Rightarrow> world \<Rightarrow> string list \<Rightarrow> cursor option \<Rightarrow> (exn + int list) \<times> DB \<times> world" where
  "DB_query_column db w a kwcursor =
     (case DB_query_all db w a kwcursor of
        (Inl e, db1, w1) \<Rightarrow> (Inl e, db1, w1)
      | (Inr rows, db1, w1) \<Rightarrow> (first_column rows, db1, w1))"

section \<open>The outbound call tracker (rrd/corelib/__init__.py)\<close>

text \<open>
  The exception classes the handlers of \<^verbatim>\<open>auth_requests\<close> tell apart, in the order of
  the \<^verbatim>\<open>except\<close> clauses: \<^verbatim>\<open>requests.exceptions.Timeout\<close> (which also catches
  \<^verbatim>\<open>ConnectTimeout\<close>), \<^verbatim>\<open>requests.exceptions.ConnectionError\<close>, and any other
  \<^verbatim>\<open>Exception\<close>. Each carries the text of \<^verbatim>\<open>str(e)\<close>.
\<close>

datatype req_exn = ReqTimeout string | ReqConnectionError string | ReqException string

datatype net_reply = Responds int | Fails req_exn

datatype req_event =
    REQ_START nat string string string string nat
  | REQ_ERROR nat string
  | REQ_SUCCESS nat string string int rat
  | REQ_SLOW nat string string rat string
  | REQ_TIMEOUT nat string string rat string string
  | REQ_CONN_ERROR nat string string rat string string
  | REQ_EXCEPTION nat string string rat string string
  | REQ_END nat rat nat

record call_record =
  cr_method :: string
  cr_url :: string
  cr_start :: rat
  cr_caller :: string
  cr_thread :: string

text \<open>
  The module's globals \<^verbatim>\<open>_request_counter\<close> and \<^verbatim>\<open>_active_requests\<close> (a dictionary,
  here an association list in insertion order), the log and the clock.
\<close>

record tracker =
  request_counter :: nat
  active_requests :: "(nat \<times> call_record) list"
  req_log :: "req_event list"
  clock :: rat

definition log_req :: "req_event \<Rightarrow> tracker \<Rightarrow> tracker" where
  "log_req e t = t\<lparr>req_log := req_log t @ [e]\<rparr>"

text \<open>
  Substring test (\<^verbatim>\<open>x in s\<close>) and \<^verbatim>\<open>s.split(x)[-1]\<close>, the text after the last
  occurrence of a separator that cannot overlap itself (here \<^verbatim>\<open>rrd/\<close>); without an
  occurrence the whole text.
\<close>

definition starts_with :: "string \<Rightarrow> string \<Rightarrow> bool" where
  "starts_with x s = (take (length x) s = x)"

fun contains :: "string \<Rightarrow> string \<Rightarrow> bool" where
  "contains x [] = (x = [])"
| "contains x (c # s) = (starts_with x (c # s) \<or> contains x s)"

fun after_last :: "string \<Rightarrow> string \<Rightarrow> string" where
  "after_last x [] = []"
| "after_last x (c # s) =
     (if contains x s then after_last x s
      else if starts_with x (c # s) then drop (length x) (c # s)
      else c # s)"

record frame =
  filename :: string
  lineno :: nat
  func_name :: string

text \<open>\<^verbatim>\<open>"%s" % lineno\<close>: a natural number in decimal.\<close>

fun digits_of :: "nat \<Rightarrow> nat \<Rightarrow> string" where
  "digits_of 0 n = []"
| "digits_of (Suc fuel) n =
     (if n < 10 then [''0123456789'' ! n] else digits_of fuel (n div 10) @ [''0123456789'' ! (n mod 10)])"

definition str_nat :: "nat \<Rightarrow> string" where
  "str_nat n = digits_of (Suc n) n"

text \<open>
  Caller attribution: the innermost frame below the tracker's own whose file name contains
  \<^verbatim>\<open>rrd/\<close> and not \<^verbatim>\<open>__init__.py\<close>. The argument lists the frames the loop visits,
  that is \<^verbatim>\<open>reversed(stack[:-1])\<close>.
\<close>

fun find_caller :: "frame list \<Rightarrow> string" where
  "find_caller [] = ''unknown''"
| "find_caller (f # fs) =
     (if contains ''rrd/'' (filename f) \<and> \<not> contains ''__init__.py'' (filename f)
      then after_last ''rrd/'' (filename f) @ '':'' @ str_nat (lineno f) @ '':'' @ func_name f
      else find_caller fs)"

text \<open>\<^verbatim>\<open>url = args[0] if args else kwargs.get('url', 'unknown')\<close>\<close>

definition url_of :: "string list \<Rightarrow> string option \<Rightarrow> string" where
  "url_of args kw_url =
     (case args of u # rest \<Rightarrow> u | [] \<Rightarrow> (case kw_url of Some u \<Rightarrow> u | None \<Rightarrow> ''unknown''))"

text \<open>
  The \<^verbatim>\<open>finally\<close> clause: the record is removed if present, the registry is measured and
  \<^verbatim>\<open>REQ_END\<close> is logged.
\<close>

definition req_finally :: "nat \<Rightarrow> rat \<Rightarrow> tracker \<Rightarrow> tracker" where
  "req_finally request_id start_time t =
     (let t1 = t\<lparr>active_requests := AList.delete request_id (active_requests t)\<rparr>
      in log_req (REQ_END request_id (clock t1 - start_time) (length (active_requests t1))) t1)"

text \<open>
  The \<^verbatim>\<open>try\<close> statement without its \<^verbatim>\<open>finally\<close> clause. The network call takes the
  time \<open>d\<close> and either responds with a status code or fails; an unsupported method
  raises inside the \<^verbatim>\<open>try\<close> and is caught by the last handler. Every handler logs and
  re-raises.
\<close>

definition req_try :: "nat \<Rightarrow> string \<Rightarrow> string \<Rightarrow> string \<Rightarrow> rat \<Rightarrow> rat \<times> net_reply \<Rightarrow> tracker \<Rightarrow> (req_exn + int) \<times> tracker" where
  "req_try request_id method url caller start_time net t =
     (if method \<in> set [''POST'', ''GET'', ''PUT'', ''DELETE'']
      then (let t1 = t\<lparr>clock := clock t + fst net\<rparr>; elapsed = clock t1 - start_time
            in case snd net of
                 Responds status \<Rightarrow>
                   (let t2 = log_req (REQ_SUCCESS request_id method url status elapsed) t1
                    in (Inr status,
                        (if elapsed > 2 then log_req (REQ_SLOW request_id method url elapsed caller) t2 else t2)))
               | Fails (ReqTimeout m) \<Rightarrow>
                   (Inl (ReqTimeout m), log_req (REQ_TIMEOUT request_id method url elapsed caller m) t1)
               | Fails (ReqConnectionError m) \<Rightarrow>
                   (Inl (ReqConnectionError m), log_req (REQ_CONN_ERROR request_id method url elapsed caller m) t1)
               | Fails (ReqException m) \<Rightarrow>
                   (Inl (ReqException m), log_req (REQ_EXCEPTION request_id method url elapsed caller m) t1))
      else (Inl (ReqException ''invalid http method''),
            log_req (REQ_EXCEPTION request_id method url (clock t - start_time) caller ''invalid http method'') t))"

text \<open>
  \<^verbatim>\<open>auth_requests\<close>: the call takes its id, registers its record, logs
  \<^verbatim>\<open>REQ_START\<close>, checks the token of the request context (\<^verbatim>\<open>g.user_token\<close>, a name
  and a signature) and only then enters the \<^verbatim>\<open>try\<close> statement. The request headers
  built from the token in between play no part in the bookkeeping and are left out.
\<close>

definition auth_requests :: "tracker \<Rightarrow> string \<Rightarrow> string list \<Rightarrow> string option \<Rightarrow> frame list \<Rightarrow> string \<Rightarrow> (string \<times> string) option \<Rightarrow> rat \<times> net_reply \<Rightarrow> (req_exn + int) \<times> tracker" where
  "auth_requests t method args kw_url stack thread user_token net =
     (let request_id = request_counter t + 1;
          t1 = t\<lparr>request_counter := request_id\<rparr>;
          caller = find_caller stack;
          start_time = clock t1;
          url = url_of args kw_url;
          active_count = length (active_requests t1);
          t2 = t1\<lparr>active_requests :=
                   AList.update request_id
                     \<lparr>cr_method = method, cr_url = url, cr_start = start_time, cr_caller = caller, cr_thread = thread\<rparr>
                     (active_requests t1)\<rparr>;
          t3 = log_req (REQ_START request_id method url caller thread active_count) t2
      in case user_token of
           None \<Rightarrow> (Inl (ReqException ''no api token''), log_req (REQ_ERROR request_id ''no_api_token'') t3)
         | Some tok \<Rightarrow>
             (case req_try request_id method url caller start_time net t3 of
                (r, t4) \<Rightarrow> (r, req_finally request_id start_time t4)))"

definition tracker_init :: tracker where
  "tracker_init = \<lparr>request_counter = 0, active_requests = [], req_log = [], clock = 0\<rparr>"

section \<open>The log correlation engine (logs/analyze_logs.py)\<close>

subsection \<open>Characters, numbers and patterns\<close>

text \<open>
  Lines are strings of characters below 128. \<^verbatim>\<open>\d\<close> is a decimal digit and
  \<^verbatim>\<open>\S\<close> is anything but the white space of Python's \<^verbatim>\<open>str\<close> patterns.
\<close>

definition is_digit :: "char \<Rightarrow> bool" where
  "is_digit c = (c \<in> set ''0123456789'')"

definition is_space :: "char \<Rightarrow> bool" where
  "is_space c = (c \<in> set [CHR 0x09, CHR 0x0A, CHR 0x0B, CHR 0x0C, CHR 0x0D,
                            CHR 0x1C, CHR 0x1D, CHR 0x1E, CHR 0x1F, CHR 0x20])"

definition digit_val :: "char \<Rightarrow> nat" where
  "digit_val c =
     (if c = CHR ''1'' then 1 else if c = CHR ''2'' then 2 else if c = CHR ''3'' then 3
      else if c = CHR ''4'' then 4 else if c = CHR ''5'' then 5 else if c = CHR ''6'' then 6
      else if c = CHR ''7'' then 7 else if c = CHR ''8'' then 8 else if c = CHR ''9'' then 9
      else 0)"

text \<open>
  \<^verbatim>\<open>int(s)\<close> on a string of digits, as \<^verbatim>\<open>(\d+)\<close> captures it; the limit that recent
  interpreters put on the number of digits is not modelled.
\<close>

definition py_int :: "string \<Rightarrow> nat" where
  "py_int s = foldl (\<lambda>n c. 10 * n + digit_val c) 0 s"

text \<open>
  \<^verbatim>\<open>float(s)\<close> on what \<^verbatim>\<open>[\d.]+\<close> can capture: digits with at most one point and
  at least one digit; anything else is a \<^verbatim>\<open>ValueError\<close> (\<open>None\<close>). The value is the
  exact decimal fraction; the rounding to a binary double is not modelled.
\<close>

definition py_float :: "string \<Rightarrow> rat option" where
  "py_float s =
     (let ip = takeWhile is_digit s; rest = drop (length ip) s
      in case rest of
           [] \<Rightarrow> (if ip = [] then None else Some (of_nat (py_int ip)))
         | c # fp \<Rightarrow>
             (if c = CHR ''.'' \<and> list_all is_digit fp \<and> (ip \<noteq> [] \<or> fp \<noteq> [])
              then Some (of_nat (py_int ip) + of_nat (py_int fp) / 10 ^ length fp)
              else None))"

text \<open>
  The six patterns of \<^verbatim>\<open>analyze_file\<close> are sequences of literal text and capturing
  groups \<^verbatim>\<open>(\d+)\<close>, \<^verbatim>\<open>(\S+)\<close>, \<^verbatim>\<open>([\d.]+)\<close>. A group is greedy: it takes the
  longest run of its class and gives characters back one at a time while the rest of the
  pattern fails. \<^verbatim>\<open>re.search\<close> tries the positions of the line from left to right.
\<close>

datatype cls = Digits | NonSpace | DigitsDots

datatype item = Lit string | Grp cls

fun in_cls :: "cls \<Rightarrow> char \<Rightarrow> bool" where
  "in_cls Digits c = is_digit c"
| "in_cls NonSpace c = (\<not> is_space c)"
| "in_cls DigitsDots c = (is_digit c \<or> c = CHR ''.'')"

function match_here :: "item list \<Rightarrow> string \<Rightarrow> string list option"
  and give_back :: "item list \<Rightarrow> string \<Rightarrow> nat \<Rightarrow> string list option" where
  "match_here [] s = Some []"
| "match_here (Lit l # p) s =
     (if take (length l) s = l then match_here p (drop (length l) s) else None)"
| "match_here (Grp c # p) s = give_back p s (length (takeWhile (in_cls c) s))"
| "give_back p s 0 = None"
| "give_back p s (Suc n) =
     (case match_here p (drop (Suc n) s) of
        Some gs \<Rightarrow> Some (take (Suc n) s # gs)
      | None \<Rightarrow> give_back p s n)"
  by pat_completeness auto
termination
  by (relation "inv_image (less_than <*lex*> less_than)
        (\<lambda>x. case x of Inl (p, s) \<Rightarrow> (length p, 0) | Inr (p, s, n) \<Rightarrow> (length p, Suc n))")
     auto

fun search :: "item list \<Rightarrow> string \<Rightarrow> string list option" where
  "search p [] = match_here p []"
| "search p (c # s) = (case match_here p (c # s) of Some gs \<Rightarrow> Some gs | None \<Rightarrow> search p s)"

text \<open>\<^verbatim>\<open>match.group(k)\<close>\<close>

definition py_group :: "string list \<Rightarrow> nat \<Rightarrow> string" where
  "py_group gs k = gs ! (k - 1)"

definition pat_http_start :: "item list" where
  "pat_http_start = [Lit ''[HTTP_START] request_id='', Grp NonSpace, Lit '' method='', Grp NonSpace,
                     Lit '' path='', Grp NonSpace]"

definition pat_http_end :: "item list" where
  "pat_http_end = [Lit ''[HTTP_END] request_id='', Grp NonSpace, Lit '' method='', Grp NonSpace,
                   Lit '' path='', Grp NonSpace, Lit '' status='', Grp NonSpace,
                   Lit '' elapsed='', Grp DigitsDots, Lit ''s'']"

definition pat_req_start :: "item list" where
  "pat_req_start = [Lit ''[REQ_START] id='', Grp Digits, Lit '' method='', Grp NonSpace,
                    Lit '' url='', Grp NonSpace, Lit '' caller='', Grp NonSpace,
                    Lit '' thread='', Grp NonSpace, Lit '' active_count='', Grp Digits]"

definition pat_req_end :: "item list" where
  "pat_req_end = [Lit ''[REQ_END] id='', Grp Digits, Lit '' elapsed='', Grp DigitsDots, Lit ''s'']"

definition pat_req_slow :: "item list" where
  "pat_req_slow = [Lit ''[REQ_SLOW] id='', Grp Digits, Lit '' method='', Grp NonSpace,
                   Lit '' url='', Grp NonSpace, Lit '' elapsed='', Grp DigitsDots,
                   Lit ''s caller='', Grp NonSpace]"

definition pat_req_timeout :: "item list" where
  "pat_req_timeout = [Lit ''[REQ_TIMEOUT] id='', Grp Digits, Lit '' method='', Grp NonSpace,
                      Lit '' url='', Grp NonSpace, Lit '' elapsed='', Grp DigitsDots, Lit ''s'']"

subsection \<open>Time stamps\<close>

record timestamp =
  year :: nat
  month :: nat
  day :: nat
  hour :: nat
  minute :: nat
  second :: nat

definition leap_year :: "nat \<Rightarrow> bool" where
  "leap_year y = (y mod 4 = 0 \<and> (y mod 100 \<noteq> 0 \<or> y mod 400 = 0))"

definition days_in_month :: "nat \<Rightarrow> nat \<Rightarrow> nat" where
  "days_in_month y m =
     (if m = 2 then (if leap_year y then 29 else 28)
      else if m \<in> set [4, 6, 9, 11] then 30 else 31)"

text \<open>
  \<^verbatim>\<open>parse_line\<close>: the line must begin with \<^verbatim>\<open>\d{4}-\d{2}-\d{2} \d{2}:\d{2}:\d{2}\<close>, and
  \<^verbatim>\<open>datetime.strptime\<close> must accept these nineteen characters as a date and a time of
  day; any exception there makes the line unparseable.
\<close>

definition timestamp_shape :: "string \<Rightarrow> bool" where
  "timestamp_shape t =
     (length t = 19
      \<and> list_all is_digit (take 4 t) \<and> t ! 4 = CHR ''-''
      \<and> list_all is_digit (take 2 (drop 5 t)) \<and> t ! 7 = CHR ''-''
      \<and> list_all is_digit (take 2 (drop 8 t)) \<and> t ! 10 = CHR '' ''
      \<and> list_all is_digit (take 2 (drop 11 t)) \<and> t ! 13 = CHR '':''
      \<and> list_all is_digit (take 2 (drop 14 t)) \<and> t ! 16 = CHR '':''
      \<and> list_all is_digit (take 2 (drop 17 t)))"

definition strptime :: "string \<Rightarrow> timestamp option" where
  "strptime t =
     (let y = py_int (take 4 t); m = py_int (take 2 (drop 5 t)); d = py_int (take 2 (drop 8 t));
          h = py_int (take 2 (drop 11 t)); mi = py_int (take 2 (drop 14 t));
          s = py_int (take 2 (drop 17 t))
      in if 1 \<le> y \<and> 1 \<le> m \<and> m \<le> 12 \<and> 1 \<le> d \<and> d \<le> days_in_month y m
            \<and> h \<le> 23 \<and> mi \<le> 59 \<and> s \<le> 59
         then Some \<lparr>year = y, month = m, day = d, hour = h, minute = mi, second = s\<rparr>
         else None)"

definition parse_line :: "string \<Rightarrow> timestamp option" where
  "parse_line line = (if timestamp_shape (take 19 line) then strptime (take 19 line) else None)"

subsection \<open>The analyzer state and its handlers\<close>

datatype err = ValueError string | IOError string

text \<open>
  The entries of the dictionaries \<^verbatim>\<open>http_requests\<close> and \<^verbatim>\<open>api_requests\<close>; the keys
  \<^verbatim>\<open>end\<close>, \<^verbatim>\<open>status\<close> and \<^verbatim>\<open>elapsed\<close> are present only after the matching end
  line. Dictionaries are association lists in insertion order, keyed by the captured
  text of the id.
\<close>

record http_req =
  h_start :: timestamp
  h_method :: string
  h_path :: string
  h_end :: "timestamp option"
  h_status :: "string option"
  h_elapsed :: "rat option"

record api_req =
  a_start :: timestamp
  a_method :: string
  a_url :: string
  a_caller :: string
  a_active_count_start :: nat
  a_end :: "timestamp option"
  a_elapsed :: "rat option"

record slow_req =
  s_req_id :: string
  s_timestamp :: timestamp
  s_elapsed :: rat
  s_caller :: string

record timeout_req =
  t_req_id :: string
  t_timestamp :: timestamp
  t_url :: string
  t_elapsed :: rat

record analyzer =
  http_requests :: "(string \<times> http_req) list"
  api_requests :: "(string \<times> api_req) list"
  slow_requests :: "slow_req list"
  timeouts :: "timeout_req list"
  errors :: "string list"
  concurrent_peak :: nat

definition LogAnalyzer :: analyzer where
  "LogAnalyzer = \<lparr>http_requests = [], api_requests = [], slow_requests = [], timeouts = [],
                   errors = [], concurrent_peak = 0\<rparr>"

definition to_float :: "string \<Rightarrow> err + rat" where
  "to_float s = (case py_float s of None \<Rightarrow> Inl (ValueError s) | Some x \<Rightarrow> Inr x)"

definition analyze_http_start :: "analyzer \<Rightarrow> string list \<Rightarrow> timestamp \<Rightarrow> err + analyzer" where
  "analyze_http_start self m ts =
     Inr (self\<lparr>http_requests :=
            AList.update (py_group m 1)
              \<lparr>h_start = ts, h_method = py_group m 2, h_path = py_group m 3,
               h_end = None, h_status = None, h_elapsed = None\<rparr>
              (http_requests self)\<rparr>)"

definition analyze_http_end :: "analyzer \<Rightarrow> string list \<Rightarrow> timestamp \<Rightarrow> err + analyzer" where
  "analyze_http_end self m ts =
     (case to_float (py_group m 5) of
        Inl e \<Rightarrow> Inl e
      | Inr elapsed \<Rightarrow>
          (case map_of (http_requests self) (py_group m 1) of
             None \<Rightarrow> Inr self
           | Some r \<Rightarrow>
               Inr (self\<lparr>http_requests :=
                      AList.update (py_group m 1)
                        (r\<lparr>h_end := Some ts, h_status := Some (py_group m 4), h_elapsed := Some elapsed\<rparr>)
                        (http_requests self)\<rparr>)))"

definition analyze_req_start :: "analyzer \<Rightarrow> string list \<Rightarrow> timestamp \<Rightarrow> err + analyzer" where
  "analyze_req_start self m ts =
     (let active_count = py_int (py_group m 6);
          self1 = self\<lparr>api_requests :=
                    AList.update (py_group m 1)
                      \<lparr>a_start = ts, a_method = py_group m 2, a_url = py_group m 3, a_caller = py_group m 4,
                       a_active_count_start = active_count, a_end = None, a_elapsed = None\<rparr>
                      (api_requests self)\<rparr>
      in Inr (if active_count > concurrent_peak self1
              then self1\<lparr>concurrent_peak := active_count\<rparr> else self1))"

definition analyze_req_end :: "analyzer \<Rightarrow> string list \<Rightarrow> timestamp \<Rightarrow> err + analyzer" where
  "analyze_req_end self m ts =
     (case to_float (py_group m 2) of
        Inl e \<Rightarrow> Inl e
      | Inr elapsed \<Rightarrow>
          (case map_of (api_requests self) (py_group m 1) of
             None \<Rightarrow> Inr self
           | Some r \<Rightarrow>
               Inr (self\<lparr>api_requests :=
                      AList.update (py_group m 1) (r\<lparr>a_end := Some ts, a_elapsed := Some elapsed\<rparr>)
                        (api_requests self)\<rparr>)))"

definition analyze_slow :: "analyzer \<Rightarrow> string list \<Rightarrow> timestamp \<Rightarrow> err + analyzer" where
  "analyze_slow self m ts =
     (case to_float (py_group m 4) of
        Inl e \<Rightarrow> Inl e
      | Inr elapsed \<Rightarrow>
          Inr (self\<lparr>slow_requests := slow_requests self @
                 [\<lparr>s_req_id = py_group m 1, s_timestamp = ts, s_elapsed = elapsed, s_caller = py_group m 5\<rparr>]\<rparr>))"

definition analyze_timeout :: "analyzer \<Rightarrow> string list \<Rightarrow> timestamp \<Rightarrow> err + analyzer" where
  "analyze_timeout self m ts =
     (case to_float (py_group m 4) of
        Inl e \<Rightarrow> Inl e
      | Inr elapsed \<Rightarrow>
          Inr (self\<lparr>timeouts := timeouts self @
                 [\<lparr>t_req_id = py_group m 1, t_timestamp = ts, t_url = py_group m 3, t_elapsed = elapsed\<rparr>]\<rparr>))"

text \<open>
  One turn of the loop of \<^verbatim>\<open>analyze_file\<close>: which handler the line reaches, with the
  groups of the first pattern that matches, in the order of the source.
\<close>

datatype handler = H_http_start | H_http_end | H_req_start | H_req_end | H_slow | H_timeout

definition dispatch :: "string \<Rightarrow> (handler \<times> string list \<times> timestamp) option" where
  "dispatch line =
     (case parse_line line of
        None \<Rightarrow> None
      | Some ts \<Rightarrow>
          (case search pat_http_start line of Some m \<Rightarrow> Some (H_http_start, m, ts) | None \<Rightarrow>
          (case search pat_http_end line of Some m \<Rightarrow> Some (H_http_end, m, ts) | None \<Rightarrow>
          (case search pat_req_start line of Some m \<Rightarrow> Some (H_req_start, m, ts) | None \<Rightarrow>
          (case search pat_req_end line of Some m \<Rightarrow> Some (H_req_end, m, ts) | None \<Rightarrow>
          (case search pat_req_slow line of Some m \<Rightarrow> Some (H_slow, m, ts) | None \<Rightarrow>
          (case search pat_req_timeout line of Some m \<Rightarrow> Some (H_timeout, m, ts) | None \<Rightarrow>
           None)))))))"

fun handle :: "analyzer \<Rightarrow> handler \<times> string list \<times> timestamp \<Rightarrow> err + analyzer" where
  "handle self (H_http_start, m, ts) = analyze_http_start self m ts"
| "handle self (H_http_end, m, ts) = analyze_http_end self m ts"
| "handle self (H_req_start, m, ts) = analyze_req_start self m ts"
| "handle self (H_req_end, m, ts) = analyze_req_end self m ts"
| "handle self (H_slow, m, ts) = analyze_slow self m ts"
| "handle self (H_timeout, m, ts) = analyze_timeout self m ts"

definition analyze_line :: "analyzer \<Rightarrow> string \<Rightarrow> err + analyzer" where
  "analyze_line self line = (case dispatch line of None \<Rightarrow> Inr self | Some d \<Rightarrow> handle self d)"

fun analyze_file :: "analyzer \<Rightarrow> string list \<Rightarrow> err + analyzer" where
  "analyze_file self [] = Inr self"
| "analyze_file self (line # rest) =
     (case analyze_line self line of Inl e \<Rightarrow> Inl e | Inr self1 \<Rightarrow> analyze_file self1 rest)"

subsection \<open>The report\<close>

text \<open>
  \<^verbatim>\<open>generate_report\<close> prints. Each \<^verbatim>\<open>print\<close> of the source is one item of the report,
  carrying the values that fill its format; the fixed text and the rendering of the
  numbers (\<^verbatim>\<open>%d\<close>, \<^verbatim>\<open>%.3f\<close>, \<^verbatim>\<open>%.1f\<close>) are not modelled.
\<close>

datatype out =
    Rule
  | Dashes
  | Title
  | Heading nat
  | Http_total nat
  | Api_total nat
  | Slow_count nat
  | Timeout_count nat
  | Peak nat
  | Http_mean rat
  | Http_max rat
  | Http_min rat
  | Http_slowest_head
  | Http_slowest rat string string string
  | Api_mean rat
  | Api_max rat
  | Url_head
  | Url_name string
  | Url_stats nat rat rat rat
  | Slow_line "nat \<times> nat \<times> nat" rat
  | Slow_caller string
  | Slow_url string
  | Blank
  | Timeout_line "nat \<times> nat \<times> nat" string rat
  | Conc_mean rat
  | Conc_max nat
  | Dist_head
  | Dist_line nat nat string
  | Finding_timeouts nat
  | Finding_peak nat
  | Finding_long_call rat
  | Finding_top_caller string nat
  | No_findings
  | Advice nat

text \<open>\<^verbatim>\<open>strftime('%H:%M:%S')\<close>\<close>

definition hms :: "timestamp \<Rightarrow> nat \<times> nat \<times> nat" where
  "hms ts = (hour ts, minute ts, second ts)"

text \<open>
  \<^verbatim>\<open>max\<close> and \<^verbatim>\<open>min\<close> of a list; the source calls them on non-empty lists only,
  given here as head and tail.
\<close>

definition py_max :: "'a::linorder \<Rightarrow> 'a list \<Rightarrow> 'a" where
  "py_max x xs = fold max xs x"

definition py_min :: "'a::linorder \<Rightarrow> 'a list \<Rightarrow> 'a" where
  "py_min x xs = fold min xs x"

text \<open>\<^verbatim>\<open>sorted(xs, key=f, reverse=True)\<close>: descending and stable.\<close>

definition sorted_desc :: "('a \<Rightarrow> rat) \<Rightarrow> 'a list \<Rightarrow> 'a list" where
  "sorted_desc f xs = sort_key (\<lambda>x. - f x) xs"

text \<open>The list comprehension \<^verbatim>\<open>[req['elapsed'] for req in d.values() if 'elapsed' in req]\<close>.\<close>

definition http_elapsed :: "analyzer \<Rightarrow> rat list" where
  "http_elapsed self = List.map_filter (\<lambda>(k, r). h_elapsed r) (http_requests self)"

definition api_elapsed :: "analyzer \<Rightarrow> rat list" where
  "api_elapsed self = List.map_filter (\<lambda>(k, r). a_elapsed r) (api_requests self)"

definition mean :: "rat list \<Rightarrow> rat" where
  "mean xs = sum_list xs / of_nat (length xs)"

definition section1 :: "analyzer \<Rightarrow> out list" where
  "section1 self =
     [Heading 1, Dashes,
      Http_total (length (http_requests self)),
      Api_total (length (api_requests self)),
      Slow_count (length (slow_requests self)),
      Timeout_count (length (timeouts self)),
      Peak (concurrent_peak self)]"

definition slow_http :: "analyzer \<Rightarrow> (rat \<times> http_req) list" where
  "slow_http self =
     take 10 (sorted_desc fst
       (List.map_filter (\<lambda>(k, r). case h_elapsed r of None \<Rightarrow> None | Some e \<Rightarrow> Some (e, r))
          (http_requests self)))"

definition section2 :: "analyzer \<Rightarrow> out list" where
  "section2 self =
     [Heading 2, Dashes] @
     (case http_elapsed self of
        [] \<Rightarrow> []
      | x # xs \<Rightarrow>
          [Http_mean (mean (x # xs)), Http_max (py_max x xs), Http_min (py_min x xs),
           Http_slowest_head] @
          map (\<lambda>(e, r). Http_slowest e (h_method r) (h_path r)
                 (case h_status r of None \<Rightarrow> ''unknown'' | Some s \<Rightarrow> s))
            (slow_http self))"

text \<open>
  \<^verbatim>\<open>url_stats\<close>, a \<^verbatim>\<open>defaultdict\<close> of count, total and maximum per URL, filled in the
  order of \<^verbatim>\<open>api_requests\<close>.
\<close>

definition url_stats_add :: "string \<Rightarrow> rat \<Rightarrow> (string \<times> nat \<times> rat \<times> rat) list \<Rightarrow> (string \<times> nat \<times> rat \<times> rat) list" where
  "url_stats_add url e stats =
     (case (case map_of stats url of None \<Rightarrow> (0, 0, 0) | Some s \<Rightarrow> s) of
        (cnt, tot, mx) \<Rightarrow> AList.update url (cnt + 1, tot + e, max mx e) stats)"

definition url_stats :: "analyzer \<Rightarrow> (string \<times> nat \<times> rat \<times> rat) list" where
  "url_stats self =
     foldl (\<lambda>stats (k, r). case a_elapsed r of None \<Rightarrow> stats | Some e \<Rightarrow> url_stats_add (a_url r) e stats)
       [] (api_requests self)"

definition section3 :: "analyzer \<Rightarrow> out list" where
  "section3 self =
     [Heading 3, Dashes] @
     (case api_elapsed self of
        [] \<Rightarrow> []
      | x # xs \<Rightarrow>
          [Api_mean (mean (x # xs)), Api_max (py_max x xs), Url_head] @
          concat (map (\<lambda>(url, cnt, tot, mx). [Url_name url, Url_stats cnt (tot / of_nat cnt) mx tot])
            (take 10 (sorted_desc (\<lambda>(url, cnt, tot, mx). tot) (url_stats self)))))"

definition section4 :: "analyzer \<Rightarrow> out list" where
  "section4 self =
     (if slow_requests self \<noteq> []
      then [Heading 4, Dashes] @
           concat (map (\<lambda>req.
                     [Slow_line (hms (s_timestamp req)) (s_elapsed req), Slow_caller (s_caller req)] @
                     (case map_of (api_requests self) (s_req_id req) of
                        None \<Rightarrow> [] | Some api_req \<Rightarrow> [Slow_url (a_url api_req)]) @
                     [Blank])
             (take 20 (sorted_desc s_elapsed (slow_requests self))))
      else [])"

definition section5 :: "analyzer \<Rightarrow> out list" where
  "section5 self =
     (if timeouts self \<noteq> []
      then [Heading 5, Dashes] @
           map (\<lambda>req. Timeout_line (hms (t_timestamp req)) (t_url req) (t_elapsed req)) (timeouts self)
      else [])"

text \<open>
  \<^verbatim>\<open>active_counts\<close>; every entry of \<^verbatim>\<open>api_requests\<close> has the key
  \<^verbatim>\<open>active_count_start\<close>. The mean is \<^verbatim>\<open>sum / len\<close> with true division.
\<close>

definition active_counts :: "analyzer \<Rightarrow> nat list" where
  "active_counts self = map (\<lambda>(k, r). a_active_count_start r) (api_requests self)"

definition section6 :: "analyzer \<Rightarrow> out list" where
  "section6 self =
     [Heading 6, Dashes] @
     (case active_counts self of
        [] \<Rightarrow> []
      | x # xs \<Rightarrow>
          [Conc_mean (of_nat (sum_list (x # xs)) / of_nat (length (x # xs))),
           Conc_max (py_max x xs),
           Dist_head] @
          map (\<lambda>c. Dist_line c (count_list (x # xs) c)
                      (replicate (min 50 (count_list (x # xs) c div 10)) CHR ''#''))
            (sort (remdups (x # xs))))"

text \<open>
  \<^verbatim>\<open>slow_callers\<close> counts the slow requests per caller, in the order of first
  appearance; \<^verbatim>\<open>max(items, key=count)\<close> is the first entry with the largest count.
\<close>

definition slow_callers :: "analyzer \<Rightarrow> (string \<times> nat) list" where
  "slow_callers self =
     foldl (\<lambda>cs req. AList.update (s_caller req)
                        ((case map_of cs (s_caller req) of None \<Rightarrow> 0 | Some n \<Rightarrow> n) + 1) cs)
       [] (slow_requests self)"

fun first_max :: "(string \<times> nat) \<Rightarrow> (string \<times> nat) list \<Rightarrow> (string \<times> nat)" where
  "first_max best [] = best"
| "first_max best (x # xs) = first_max (if snd x > snd best then x else best) xs"

definition findings :: "analyzer \<Rightarrow> out list" where
  "findings self =
     (if timeouts self \<noteq> [] then [Finding_timeouts (length (timeouts self))] else []) @
     (if concurrent_peak self > 5 then [Finding_peak (concurrent_peak self)] else []) @
     (case api_elapsed self of
        [] \<Rightarrow> []
      | x # xs \<Rightarrow> (if py_max x xs > 10 then [Finding_long_call (py_max x xs)] else [])) @
     (case slow_callers self of
        [] \<Rightarrow> []
      | c # cs \<Rightarrow> (case first_max c cs of (caller, n) \<Rightarrow> [Finding_top_caller caller n]))"

definition section7 :: "analyzer \<Rightarrow> out list" where
  "section7 self =
     [Heading 7, Dashes] @
     (if findings self \<noteq> [] then findings self else [No_findings]) @
     [Advice 0, Advice 1, Advice 2, Advice 3, Advice 4, Rule]"

definition generate_report :: "analyzer \<Rightarrow> out list" where
  "generate_report self =
     [Rule, Title, Rule] @ section1 self @ section2 self @ section3 self @ section4 self @
     section5 self @ section6 self @ section7 self"

subsection \<open>The command line\<close>

text \<open>
  \<^verbatim>\<open>main\<close> reads the file named by the first argument, or the standard input when there
  is no argument or the argument is \<^verbatim>\<open>-\<close>, with a fresh \<^verbatim>\<open>LogAnalyzer\<close> each time.
  The file system maps a path to the lines of the file; a missing file is the
  \<^verbatim>\<open>IOError\<close> of \<^verbatim>\<open>open\<close>.
\<close>

definition read_input :: "string list \<Rightarrow> (string \<Rightarrow> string list option) \<Rightarrow> string list \<Rightarrow> err + string list" where
  "read_input argv fs stdin =
     (if length argv > 1 \<and> argv ! 1 \<noteq> ''-''
      then (case fs (argv ! 1) of None \<Rightarrow> Inl (IOError (argv ! 1)) | Some ls \<Rightarrow> Inr ls)
      else Inr stdin)"

definition run_analyzer :: "string list \<Rightarrow> err + out list" where
  "run_analyzer ls =
     (case analyze_file LogAnalyzer ls of Inl e \<Rightarrow> Inl e | Inr self \<Rightarrow> Inr (generate_report self))"

definition main :: "string list \<Rightarrow> (string \<Rightarrow> string list option) \<Rightarrow> string list \<Rightarrow> err + out list" where
  "main argv fs stdin =
     (case read_input argv fs stdin of Inl e \<Rightarrow> Inl e | Inr ls \<Rightarrow> run_analyzer ls)"

section \<open>Observers and example inputs\<close>

text \<open>The number of statements handed to the driver, read off the trace.\<close>

fun is_execute :: "call \<Rightarrow> bool" where
  "is_execute (Execute i a) = True"
| "is_execute c = False"

definition executes :: "call list \<Rightarrow> nat" where
  "executes cs = length (filter is_execute cs)"

text \<open>Example database handles and driver worlds.\<close>

definition ex_db :: "nat option \<Rightarrow> DB" where
  "ex_db c = \<lparr>config = ''portal'', conn = c\<rparr>"

definition mk_world :: "(rat \<times> reply) list \<Rightarrow> rat \<Rightarrow> call list \<Rightarrow> call list \<Rightarrow> event list \<Rightarrow> nat \<Rightarrow> world" where
  "mk_world s t tr cp ev f =
     \<lparr>script = s, now = t, trace = tr, completed = cp, events = ev, fresh = f, thread_name = ''MainThread''\<rparr>"

definition ok :: "rat \<times> reply" where
  "ok = (0, Returns no_answer)"

text \<open>
  The lines of a log that reach a handler, each with its handler, its groups and its
  time stamp, in the order of the log.
\<close>

definition recognized :: "string list \<Rightarrow> (handler \<times> string list \<times> timestamp) list" where
  "recognized ls = List.map_filter dispatch ls"

text \<open>The handlers applied to such a list, stopping at the first exception.\<close>

fun analyze_events :: "analyzer \<Rightarrow> (handler \<times> string list \<times> timestamp) list \<Rightarrow> err + analyzer" where
  "analyze_events self [] = Inr self"
| "analyze_events self (d # ds) =
     (case handle self d of Inl e \<Rightarrow> Inl e | Inr self1 \<Rightarrow> analyze_events self1 ds)"

text \<open>
  A line raises when \<^verbatim>\<open>float\<close> rejects its \<^verbatim>\<open>elapsed\<close> group. A log is well formed
  when none of its lines does; the emitter writes \<^verbatim>\<open>elapsed\<close> with \<^verbatim>\<open>%.3f\<close>, so the
  logs it produces are.
\<close>

fun event_raises :: "handler \<times> string list \<times> timestamp \<Rightarrow> bool" where
  "event_raises (H_http_start, m, ts) = False"
| "event_raises (H_http_end, m, ts) = (py_float (py_group m 5) = None)"
| "event_raises (H_req_start, m, ts) = False"
| "event_raises (H_req_end, m, ts) = (py_float (py_group m 2) = None)"
| "event_raises (H_slow, m, ts) = (py_float (py_group m 4) = None)"
| "event_raises (H_timeout, m, ts) = (py_float (py_group m 4) = None)"

definition well_formed :: "string list \<Rightarrow> bool" where
  "well_formed ls = list_all (\<lambda>d. \<not> event_raises d) (recognized ls)"

text \<open>The timeout entries and the ids that a log holds, read off its lines.\<close>

fun timeout_of :: "handler \<times> string list \<times> timestamp \<Rightarrow> timeout_req option" where
  "timeout_of (H_timeout, m, ts) =
     (case py_float (py_group m 4) of
        None \<Rightarrow> None
      | Some e \<Rightarrow> Some \<lparr>t_req_id = py_group m 1, t_timestamp = ts, t_url = py_group m 3, t_elapsed = e\<rparr>)"
| "timeout_of d = None"

definition timeout_entries :: "string list \<Rightarrow> timeout_req list" where
  "timeout_entries ls = List.map_filter timeout_of (recognized ls)"

definition ids_in :: "handler \<Rightarrow> (handler \<times> string list \<times> timestamp) list \<Rightarrow> string list" where
  "ids_in h ds = map (\<lambda>(h', m, ts). py_group m 1) (filter (\<lambda>(h', m, ts). h' = h) ds)"

definition ids_of :: "handler \<Rightarrow> string list \<Rightarrow> string list" where
  "ids_of h ls = ids_in h (recognized ls)"

text \<open>
  The last \<^verbatim>\<open>REQ_START\<close> line of an id, the fields such a line gives an entry, and the
  same fields of an entry.
\<close>

fun last_start :: "string \<Rightarrow> (handler \<times> string list \<times> timestamp) list \<Rightarrow> (string list \<times> timestamp) option" where
  "last_start k [] = None"
| "last_start k ((h, m, ts) # ds) =
     (case last_start k ds of
        Some r \<Rightarrow> Some r
      | None \<Rightarrow> (if h = H_req_start \<and> py_group m 1 = k then Some (m, ts) else None))"

definition start_fields :: "api_req \<Rightarrow> timestamp \<times> string \<times> string \<times> string \<times> nat" where
  "start_fields r = (a_start r, a_method r, a_url r, a_caller r, a_active_count_start r)"

definition new_fields :: "string list \<times> timestamp \<Rightarrow> timestamp \<times> string \<times> string \<times> string \<times> nat" where
  "new_fields mt = (snd mt, py_group (fst mt) 2, py_group (fst mt) 3, py_group (fst mt) 4,
                    py_int (py_group (fst mt) 6))"

text \<open>A time stamp of the first minute of 2024, for the examples.\<close>

definition ts0 :: "nat \<Rightarrow> timestamp" where
  "ts0 s = \<lparr>year = 2024, month = 1, day = 1, hour = 0, minute = 0, second = s\<rparr>"

section \<open>Properties of the data access layer\<close>

lemma driver_trace: "driver c w = (r, w1) \<Longrightarrow> trace w1 = trace w @ [c] \<and> events w1 = events w \<and> thread_name w1 = thread_name w"
  by (auto simp: driver_def split: list.splits prod.splits)

lemma driver_completed:
  "driver c w = (r, w1) \<Longrightarrow> completed w1 = completed w @ (case r of Raises e \<Rightarrow> [] | Returns y \<Rightarrow> [c])"
  by (auto simp: driver_def no_answer_def split: list.splits prod.splits)

lemma connect_db_trace: "connect_db cfg w = (c, w1) \<Longrightarrow> trace w1 = trace w @ [Connect cfg]"
  by (auto simp: connect_db_def emit_def split: prod.splits reply.splits dest: driver_trace)

lemma connect_db_completed: "connect_db cfg w = (c, w1) \<Longrightarrow> \<exists>ds. completed w1 = completed w @ ds"
  by (auto simp: connect_db_def emit_def split: prod.splits reply.splits dest!: driver_completed)

lemma get_conn_trace: "get_conn db w = (c, db1, w1) \<Longrightarrow> \<exists>cs. trace w1 = trace w @ cs \<and> executes cs = 0"
  by (auto simp: get_conn_def executes_def split: option.splits prod.splits dest!: connect_db_trace)

lemma get_conn_completed: "get_conn db w = (c, db1, w1) \<Longrightarrow> \<exists>ds. completed w1 = completed w @ ds"
  by (auto simp: get_conn_def split: option.splits prod.splits dest!: connect_db_completed)

lemma new_cursor_trace: "new_cursor db w = (r, db1, w1) \<Longrightarrow> \<exists>cs. trace w1 = trace w @ cs \<and> executes cs = 0"
  by (auto simp: new_cursor_def executes_def split: option.splits prod.splits reply.splits dest!: get_conn_trace driver_trace)

lemma new_cursor_completed: "new_cursor db w = (r, db1, w1) \<Longrightarrow> \<exists>ds. completed w1 = completed w @ ds"
  by (auto simp: new_cursor_def split: option.splits prod.splits reply.splits dest!: get_conn_completed driver_completed)

lemma cursor_execute_trace:
  "cursor_execute v a w = (r, w1) \<Longrightarrow>
     (\<exists>cs. trace w1 = trace w @ cs \<and> executes cs \<le> 1) \<and>
     (\<forall>v'. r = Inr v' \<longrightarrow> (\<exists>c c'. v = Some c \<and> v' = Some c' \<and> cur_id c' = cur_id c \<and> trace w1 = trace w @ [Execute (cur_id c) a]))"
  by (auto simp: cursor_execute_def executes_def split: option.splits prod.splits reply.splits if_splits dest!: driver_trace)

lemma cursor_execute_completed:
  "cursor_execute v a w = (r, w1) \<Longrightarrow>
     (\<exists>ds. completed w1 = completed w @ ds) \<and>
     (\<forall>v'. r = Inr v' \<longrightarrow> (\<exists>c. v' = Some c \<and> completed w1 = completed w @ [Execute (cur_id c) a]))"
  by (auto simp: cursor_execute_def split: option.splits prod.splits reply.splits if_splits dest!: driver_completed)

lemma attempt_trace:
  assumes "attempt db w a k = (r, db1, w1)"
  shows "\<exists>cs. trace w1 = trace w @ cs \<and> executes cs \<le> 1"
  using assms
  apply (auto simp: attempt_def split: option.splits prod.splits sum.splits dest!: new_cursor_trace cursor_execute_trace)
  apply (auto simp: executes_def)
  done

lemma attempt_completed:
  assumes "attempt db w a k = (r, db1, w1)"
  shows "\<exists>ds. completed w1 = completed w @ ds"
  using assms
  by (auto simp: attempt_def split: option.splits prod.splits sum.splits dest!: new_cursor_completed cursor_execute_completed)

lemma attempt_success:
  assumes "attempt db w a k = (Inr v, db1, w1)"
  shows "\<exists>c cs ds. v = Some c \<and> trace w1 = trace w @ cs @ [Execute (cur_id c) a] \<and> executes cs = 0
           \<and> completed w1 = completed w @ ds @ [Execute (cur_id c) a]"
proof -
  obtain v0 w0 where acq: "(case k of Some c \<Rightarrow> (Inr (Some c), db, w) | None \<Rightarrow> new_cursor db w) = (Inr v0, db1, w0)"
    and ex: "cursor_execute v0 a w0 = (Inr v, w1)"
    using assms by (auto simp: attempt_def split: prod.splits sum.splits)
  have "\<exists>cs. trace w0 = trace w @ cs \<and> executes cs = 0"
    using acq by (cases k) (auto simp: executes_def dest!: new_cursor_trace)
  moreover have "\<exists>ds. completed w0 = completed w @ ds"
    using acq by (cases k) (auto dest!: new_cursor_completed)
  ultimately obtain cs ds where pre: "trace w0 = trace w @ cs" "executes cs = 0" "completed w0 = completed w @ ds"
    by blast
  from cursor_execute_trace[OF ex] obtain c0 c where
    c: "v0 = Some c0" "v = Some c" "cur_id c = cur_id c0" "trace w1 = trace w0 @ [Execute (cur_id c0) a]" by blast
  from cursor_execute_completed[OF ex] c(2) have "completed w1 = completed w0 @ [Execute (cur_id c) a]" by auto
  with pre c show ?thesis by auto
qed

lemma emit_simps: "trace (emit e w) = trace w" "events (emit e w) = events w @ [e]" "now (emit e w) = now w"
  "script (emit e w) = script w" "thread_name (emit e w) = thread_name w" "fresh (emit e w) = fresh w"
  "completed (emit e w) = completed w"
  by (simp_all add: emit_def)

lemma close_conn_trace:
  "close_conn db w = (r, w1) \<Longrightarrow>
     events w1 = events w \<and> trace w1 = trace w @ (case conn db of None \<Rightarrow> [] | Some c \<Rightarrow> [Close c])
     \<and> (\<exists>ds. completed w1 = completed w @ ds)"
  by (auto simp: close_conn_def driver_def split: option.splits prod.splits reply.splits list.splits)






lemma execute_transient:
  assumes "attempt db w a k = (Inl e, db1, w1)" and "transient e"
  shows "DB_execute db w a k =
     (case close_conn db1 (emit (reconnect_event w a w1 e) w1) of
        (Inl e', w2) \<Rightarrow> (Inl e', db1, w2)
      | (Inr u, w2) \<Rightarrow> attempt (db1\<lparr>conn := None\<rparr>) w2 a None)"
  using assms by (simp add: DB_execute_def)

lemma execute_returns:
  assumes "DB_execute db w a k = (Inr v, db2, w2)"
  shows "\<exists>c cs ds. v = Some c \<and> trace w2 = trace w @ cs @ [Execute (cur_id c) a]
           \<and> completed w2 = completed w @ ds @ [Execute (cur_id c) a]"
proof -
  obtain r db1 w1 where at: "attempt db w a k = (r, db1, w1)" by (cases "attempt db w a k") auto
  show ?thesis
  proof (cases r)
    case (Inr v')
    with at assms have "v' = v" "trace w2 = trace w1" "completed w2 = completed w1"
      by (auto simp: DB_execute_def emit_simps split: if_splits)
    with attempt_success[of db w a k v' db1 w1] at Inr show ?thesis by auto
  next
    case (Inl e)
    with at assms have tr: "transient e"
      by (auto simp: DB_execute_def split: if_splits)
    obtain rc wc where cl: "close_conn db1 (emit (reconnect_event w a w1 e) w1) = (rc, wc)"
      by (cases "close_conn db1 (emit (reconnect_event w a w1 e) w1)") auto
    from at Inl have at': "attempt db w a k = (Inl e, db1, w1)" by simp
    from execute_transient[OF at' tr] cl assms have
      re: "attempt (db1\<lparr>conn := None\<rparr>) wc a None = (Inr v, db2, w2)"
      by (cases rc) auto
    from attempt_trace[of db w a k] at obtain cs1 where cs1: "trace w1 = trace w @ cs1" by blast
    from attempt_completed[of db w a k] at obtain ds1 where ds1: "completed w1 = completed w @ ds1" by blast
    from close_conn_trace[OF cl] obtain ds2 where
      wc: "trace wc = trace w1 @ (case conn db1 of None \<Rightarrow> [] | Some c \<Rightarrow> [Close c])" "completed wc = completed w1 @ ds2"
      by (auto simp: emit_simps)
    from attempt_success[OF re] obtain c cs ds where
      c: "v = Some c" "trace w2 = trace wc @ cs @ [Execute (cur_id c) a]" "completed w2 = completed wc @ ds @ [Execute (cur_id c) a]"
      by blast
    have "trace w2 = trace w @ (cs1 @ (case conn db1 of None \<Rightarrow> [] | Some c \<Rightarrow> [Close c]) @ cs) @ [Execute (cur_id c) a]"
      using c(2) wc(1) cs1 by simp
    moreover have "completed w2 = completed w @ (ds1 @ ds2 @ ds) @ [Execute (cur_id c) a]"
      using c(3) wc(2) ds1 by simp
    ultimately show ?thesis using c(1) by blast
  qed
qed


text \<open>
  Claim C3. If the inner \<^verbatim>\<open>DB.execute\<close> raises, \<^verbatim>\<open>DB.query_all\<close> raises the same
  exception and leaves the world exactly as execute left it: no \<^verbatim>\<open>fetchall\<close> and no
  \<^verbatim>\<open>close\<close> is attempted on the unset cursor. If execute returns, what it returns is
  a cursor, never \<^verbatim>\<open>None\<close>; \<^verbatim>\<open>fetchall\<close> is called on that cursor and the cursor
  is closed afterwards.
\<close>

theorem query_all_no_unset_cursor:
  "(DB_execute db w a k = (Inl e, db1, w1) \<longrightarrow> DB_query_all db w a k = (Inl e, db1, w1))
 \<and> (DB_execute db w a k = (Inr v, db1, w1) \<longrightarrow>
      (\<exists>c. v = Some c \<and>
        (\<exists>r w2. driver (Fetchall (cur_id c)) w1 = (r, w2) \<and>
           DB_query_all db w a k =
             ((case r of Raises x \<Rightarrow> Inl x | Returns y \<Rightarrow> Inr (a_rows y)), db1,
              w2\<lparr>trace := trace w1 @ [Fetchall (cur_id c), CloseCursor (cur_id c)]\<rparr>))))"
proof (intro conjI impI)
  assume "DB_execute db w a k = (Inl e, db1, w1)"
  then show "DB_query_all db w a k = (Inl e, db1, w1)"
    by (simp add: DB_query_all_def finally_close_def)
next
  assume ex: "DB_execute db w a k = (Inr v, db1, w1)"
  from execute_returns[OF ex] obtain c where c: "v = Some c" by blast
  obtain r w2 where d: "driver (Fetchall (cur_id c)) w1 = (r, w2)" by (cases "driver (Fetchall (cur_id c)) w1") auto
  from driver_trace[OF d] have t: "trace w2 = trace w1 @ [Fetchall (cur_id c)]" by simp
  have "DB_query_all db w a k =
             ((case r of Raises x \<Rightarrow> Inl x | Returns y \<Rightarrow> Inr (a_rows y)), db1,
              w2\<lparr>trace := trace w1 @ [Fetchall (cur_id c), CloseCursor (cur_id c)]\<rparr>)"
    using ex c d t by (simp add: DB_query_all_def cursor_fetchall_def finally_close_def split: reply.splits)
  with c d show "\<exists>c. v = Some c \<and>
        (\<exists>r w2. driver (Fetchall (cur_id c)) w1 = (r, w2) \<and>
           DB_query_all db w a k =
             ((case r of Raises x \<Rightarrow> Inl x | Returns y \<Rightarrow> Inr (a_rows y)), db1,
              w2\<lparr>trace := trace w1 @ [Fetchall (cur_id c), CloseCursor (cur_id c)]\<rparr>))" by blast
qed


lemma rollback_trace:
  "DB_rollback db w = (r, db1, w1) \<Longrightarrow> trace w1 = trace w @ (case conn db of None \<Rightarrow> [] | Some c \<Rightarrow> [Rollback c])"
  by (auto simp: DB_rollback_def split: option.splits prod.splits reply.splits if_splits dest!: driver_trace)

lemma rollback_raises:
  "DB_rollback db w = (Inl e, db1, w1) \<Longrightarrow>
     \<not> is_operational e \<and> db1 = db \<and> (\<exists>c. conn db = Some c \<and> driver (Rollback c) w = (Raises e, w1))"
  by (auto simp: DB_rollback_def split: option.splits prod.splits reply.splits if_splits)

text \<open>
  Claim C5, as the code has it. When the statement of \<^verbatim>\<open>DB.insert\<close> or
  \<^verbatim>\<open>DB.update\<close> raises an \<^verbatim>\<open>IntegrityError\<close>, the method rolls back: one
  \<^verbatim>\<open>rollback\<close> call on the connection, if there is one. The outcome of the method is
  the outcome of that rollback: if it completes (it returns, or it raises the
  \<^verbatim>\<open>OperationalError\<close> that \<^verbatim>\<open>rollback\<close> swallows) the method returns
  \<^verbatim>\<open>None\<close> instead of raising; if the driver's \<^verbatim>\<open>rollback\<close> raises anything else,
  that exception leaves the method in place of the \<^verbatim>\<open>IntegrityError\<close>.
  \<^verbatim>\<open>DB.execute\<close> and the query methods do not catch the \<^verbatim>\<open>IntegrityError\<close>: there
  it reaches the caller.
\<close>

theorem integrity_caught_only_in_insert_update:
  "(DB_execute db w a k = (Inl (IntegrityError m), db1, w1) \<and> DB_rollback db1 w1 = (r, db2, w2) \<longrightarrow>
      DB_insert db w a k = ((case r of Inl e' \<Rightarrow> Inl e' | Inr u \<Rightarrow> Inr None), db2, w2)
      \<and> DB_update db w a k = ((case r of Inl e' \<Rightarrow> Inl e' | Inr u \<Rightarrow> Inr None), db2, w2)
      \<and> trace w2 = trace w1 @ (case conn db1 of None \<Rightarrow> [] | Some c \<Rightarrow> [Rollback c])
      \<and> (\<forall>e'. r = Inl e' \<longrightarrow>
            \<not> is_operational e' \<and> (\<exists>c. conn db1 = Some c \<and> driver (Rollback c) w1 = (Raises e', w2))))
 \<and> (attempt db w a k = (Inl (IntegrityError m), db1, w1) \<longrightarrow>
      DB_execute db w a k = (Inl (IntegrityError m), db1, emit (error_event w a w1 (IntegrityError m)) w1)
      \<and> fst (DB_query_all db w a k) = Inl (IntegrityError m)
      \<and> fst (DB_query_one db w a k) = Inl (IntegrityError m)
      \<and> fst (DB_query_column db w a k) = Inl (IntegrityError m))"
proof (intro conjI impI)
  assume h: "DB_execute db w a k = (Inl (IntegrityError m), db1, w1) \<and> DB_rollback db1 w1 = (r, db2, w2)"
  then show "DB_insert db w a k = ((case r of Inl e' \<Rightarrow> Inl e' | Inr u \<Rightarrow> Inr None), db2, w2)"
    by (cases r) (simp_all add: DB_insert_def on_error_def finally_close_def)
  from h show "DB_update db w a k = ((case r of Inl e' \<Rightarrow> Inl e' | Inr u \<Rightarrow> Inr None), db2, w2)"
    by (cases r) (simp_all add: DB_update_def on_error_def finally_close_def)
  from h show "trace w2 = trace w1 @ (case conn db1 of None \<Rightarrow> [] | Some c \<Rightarrow> [Rollback c])"
    using rollback_trace by blast
  from h show "\<forall>e'. r = Inl e' \<longrightarrow>
            \<not> is_operational e' \<and> (\<exists>c. conn db1 = Some c \<and> driver (Rollback c) w1 = (Raises e', w2))"
    using rollback_raises by blast
next
  assume h: "attempt db w a k = (Inl (IntegrityError m), db1, w1)"
  then show ex: "DB_execute db w a k = (Inl (IntegrityError m), db1, emit (error_event w a w1 (IntegrityError m)) w1)"
    by (simp add: DB_execute_def)
  then show qa: "fst (DB_query_all db w a k) = Inl (IntegrityError m)"
    by (simp add: DB_query_all_def)
  from qa show "fst (DB_query_one db w a k) = Inl (IntegrityError m)"
    by (cases "DB_query_all db w a k") (simp add: DB_query_one_def)
  from qa show "fst (DB_query_column db w a k) = Inl (IntegrityError m)"
    by (cases "DB_query_all db w a k") (simp add: DB_query_column_def)
qed

lemma conn_None_upd: "conn db = None \<Longrightarrow> db\<lparr>conn := None\<rparr> = db"
  by (cases db) simp

text \<open>
  Claim C10. \<^verbatim>\<open>connect_db\<close> swallows the exception of a failed connection, logs it and
  returns \<^verbatim>\<open>None\<close>; \<^verbatim>\<open>DB.get_conn\<close> stores and returns that \<^verbatim>\<open>None\<close>. With no
  connection and a database that refuses both connection attempts, \<^verbatim>\<open>DB.execute\<close>
  fails first with the \<^verbatim>\<open>AttributeError\<close> of \<^verbatim>\<open>None.cursor\<close>, which is classified
  as transient, and the caller receives the \<^verbatim>\<open>AttributeError\<close> of the retry, whatever
  the two connection errors were.
\<close>

theorem unreachable_database_attribute_error:
  "(driver (Connect cfg) w = (Raises e, w1) \<longrightarrow>
      connect_db cfg w = (None, emit (LOG_CRITICAL (''connect db: '' @ exn_str e)) w1))
 \<and> (conn db = None \<and> connect_db (config db) w = (None, w1) \<longrightarrow> get_conn db w = (None, db, w1))
 \<and> (conn db = None \<and> script w = (d1, Raises e1) # (d2, Raises e2) # rest \<longrightarrow>
      DB_execute db w a None =
        (Inl (none_has_no ''cursor''), db,
         w\<lparr>script := rest, now := now w + d1 + d2,
           trace := trace w @ [Connect (config db), Connect (config db)],
           events := events w @
             [LOG_CRITICAL (''connect db: '' @ exn_str e1),
              DB_RECONNECT (thread_name w) (sql_preview a) d1 (exn_str (none_has_no ''cursor'')),
              LOG_CRITICAL (''connect db: '' @ exn_str e2)]\<rparr>))"
proof (intro conjI impI)
  assume "driver (Connect cfg) w = (Raises e, w1)"
  then show "connect_db cfg w = (None, emit (LOG_CRITICAL (''connect db: '' @ exn_str e)) w1)"
    by (simp add: connect_db_def)
next
  assume "conn db = None \<and> connect_db (config db) w = (None, w1)"
  then show "get_conn db w = (None, db, w1)"
    by (simp add: get_conn_def conn_None_upd)
next
  assume h: "conn db = None \<and> script w = (d1, Raises e1) # (d2, Raises e2) # rest"
  then show "DB_execute db w a None =
        (Inl (none_has_no ''cursor''), db,
         w\<lparr>script := rest, now := now w + d1 + d2,
           trace := trace w @ [Connect (config db), Connect (config db)],
           events := events w @
             [LOG_CRITICAL (''connect db: '' @ exn_str e1),
              DB_RECONNECT (thread_name w) (sql_preview a) d1 (exn_str (none_has_no ''cursor'')),
              LOG_CRITICAL (''connect db: '' @ exn_str e2)]\<rparr>)"
    by (simp add: DB_execute_def attempt_def new_cursor_def get_conn_def connect_db_def driver_def
        emit_def close_conn_def reconnect_event_def none_has_no_def conn_None_upd)
qed

lemmas run_defs = ex_db_def mk_world_def ok_def no_answer_def attempt_def new_cursor_def get_conn_def
  connect_db_def cursor_execute_def driver_def emit_def close_conn_def reconnect_event_def
  error_event_def sql_preview_def none_has_no_def



text \<open>An interface error that propagates, and a query that returns one row.\<close>

theorem query_all_no_unset_cursor_witness:
  "DB_execute (ex_db (Some 0)) (mk_world [ok, (0, Raises (OtherError ''InterfaceError'' ''(0, )''))] 0 [] [] [] 1)
       [''SELECT 1''] None
     = (Inl (OtherError ''InterfaceError'' ''(0, )''), ex_db (Some 0),
        mk_world [] 0 [Cursor 0, Execute 1 [''SELECT 1'']] [Cursor 0] [DB_ERROR ''MainThread'' ''SELECT 1'' 0 ''(0, )''] 2)
   \<and> DB_query_all (ex_db (Some 0)) (mk_world [ok, (0, Raises (OtherError ''InterfaceError'' ''(0, )''))] 0 [] [] [] 1)
       [''SELECT 1''] None
     = (Inl (OtherError ''InterfaceError'' ''(0, )''), ex_db (Some 0),
        mk_world [] 0 [Cursor 0, Execute 1 [''SELECT 1'']] [Cursor 0] [DB_ERROR ''MainThread'' ''SELECT 1'' 0 ''(0, )''] 2)
   \<and> DB_execute (ex_db (Some 0))
        (mk_world [ok, ok, (0, Returns \<lparr>a_rows = [[7, 8]], a_lastrowid = 0, a_rowcount = 0\<rparr>)] 0 [] [] [] 1)
        [''SELECT 1''] None
     = (Inr (Some \<lparr>cur_id = 1, lastrowid = 0, rowcount = 0\<rparr>), ex_db (Some 0),
        mk_world [(0, Returns \<lparr>a_rows = [[7, 8]], a_lastrowid = 0, a_rowcount = 0\<rparr>)] 0
          [Cursor 0, Execute 1 [''SELECT 1'']] [Cursor 0, Execute 1 [''SELECT 1'']] [] 2)
   \<and> DB_query_all (ex_db (Some 0))
        (mk_world [ok, ok, (0, Returns \<lparr>a_rows = [[7, 8]], a_lastrowid = 0, a_rowcount = 0\<rparr>)] 0 [] [] [] 1)
        [''SELECT 1''] None
     = (Inr [[7, 8]], ex_db (Some 0),
        mk_world [] 0 [Cursor 0, Execute 1 [''SELECT 1''], Fetchall 1, CloseCursor 1]
          [Cursor 0, Execute 1 [''SELECT 1''], Fetchall 1] [] 2)"
proof -
  let ?wa = "mk_world [ok, (0, Raises (OtherError ''InterfaceError'' ''(0, )''))] 0 [] [] [] 1"
  let ?wa1 = "mk_world [] 0 [Cursor 0, Execute 1 [''SELECT 1'']] [Cursor 0] [DB_ERROR ''MainThread'' ''SELECT 1'' 0 ''(0, )''] 2"
  let ?wb = "mk_world [ok, ok, (0, Returns \<lparr>a_rows = [[7, 8]], a_lastrowid = 0, a_rowcount = 0\<rparr>)] 0 [] [] [] 1"
  let ?wb1 = "mk_world [(0, Returns \<lparr>a_rows = [[7, 8]], a_lastrowid = 0, a_rowcount = 0\<rparr>)] 0
          [Cursor 0, Execute 1 [''SELECT 1'']] [Cursor 0, Execute 1 [''SELECT 1'']] [] 2"
  let ?c = "\<lparr>cur_id = 1, lastrowid = 0, rowcount = 0\<rparr>"
  have a: "DB_execute (ex_db (Some 0)) ?wa [''SELECT 1''] None
             = (Inl (OtherError ''InterfaceError'' ''(0, )''), ex_db (Some 0), ?wa1)"
    by (simp add: DB_execute_def run_defs)
  have b: "DB_execute (ex_db (Some 0)) ?wb [''SELECT 1''] None = (Inr (Some ?c), ex_db (Some 0), ?wb1)"
    by (simp add: DB_execute_def run_defs)
  have qa: "DB_query_all (ex_db (Some 0)) ?wa [''SELECT 1''] None
             = (Inl (OtherError ''InterfaceError'' ''(0, )''), ex_db (Some 0), ?wa1)"
    using query_all_no_unset_cursor[of "ex_db (Some 0)" ?wa "[''SELECT 1'']" None _ "ex_db (Some 0)" ?wa1] a
    by blast
  have qb: "DB_query_all (ex_db (Some 0)) ?wb [''SELECT 1''] None
     = (Inr [[7, 8]], ex_db (Some 0),
        mk_world [] 0 [Cursor 0, Execute 1 [''SELECT 1''], Fetchall 1, CloseCursor 1]
          [Cursor 0, Execute 1 [''SELECT 1''], Fetchall 1] [] 2)"
    using query_all_no_unset_cursor[of "ex_db (Some 0)" ?wb "[''SELECT 1'']" None _ "ex_db (Some 0)" ?wb1 "Some ?c"] b
    by (auto simp: driver_def mk_world_def)
  from a b qa qb show ?thesis by blast
qed



text \<open>A duplicate key on insert and on update, rolled back.\<close>

theorem integrity_caught_only_in_insert_update_witness:
  "attempt (ex_db (Some 0)) (mk_world [ok, (0, Raises (IntegrityError ''Duplicate entry'')), ok] 0 [] [] [] 1)
       [''INSERT INTO t VALUES (1)''] None
     = (Inl (IntegrityError ''Duplicate entry''), ex_db (Some 0),
        mk_world [ok] 0 [Cursor 0, Execute 1 [''INSERT INTO t VALUES (1)'']] [Cursor 0] [] 2)
   \<and> DB_execute (ex_db (Some 0)) (mk_world [ok, (0, Raises (IntegrityError ''Duplicate entry'')), ok] 0 [] [] [] 1)
       [''INSERT INTO t VALUES (1)''] None
     = (Inl (IntegrityError ''Duplicate entry''), ex_db (Some 0),
        mk_world [ok] 0 [Cursor 0, Execute 1 [''INSERT INTO t VALUES (1)'']] [Cursor 0]
          [DB_ERROR ''MainThread'' ''INSERT INTO t VALUES (1)'' 0 ''Duplicate entry''] 2)
   \<and> DB_rollback (ex_db (Some 0))
        (mk_world [ok] 0 [Cursor 0, Execute 1 [''INSERT INTO t VALUES (1)'']] [Cursor 0]
          [DB_ERROR ''MainThread'' ''INSERT INTO t VALUES (1)'' 0 ''Duplicate entry''] 2)
     = (Inr (), ex_db (Some 0),
        mk_world [] 0 [Cursor 0, Execute 1 [''INSERT INTO t VALUES (1)''], Rollback 0] [Cursor 0, Rollback 0]
          [DB_ERROR ''MainThread'' ''INSERT INTO t VALUES (1)'' 0 ''Duplicate entry''] 2)
   \<and> DB_insert (ex_db (Some 0)) (mk_world [ok, (0, Raises (IntegrityError ''Duplicate entry'')), ok] 0 [] [] [] 1)
       [''INSERT INTO t VALUES (1)''] None
     = (Inr None, ex_db (Some 0),
        mk_world [] 0 [Cursor 0, Execute 1 [''INSERT INTO t VALUES (1)''], Rollback 0] [Cursor 0, Rollback 0]
          [DB_ERROR ''MainThread'' ''INSERT INTO t VALUES (1)'' 0 ''Duplicate entry''] 2)
   \<and> DB_update (ex_db (Some 0)) (mk_world [ok, (0, Raises (IntegrityError ''Duplicate entry'')), ok] 0 [] [] [] 1)
       [''INSERT INTO t VALUES (1)''] None
     = (Inr None, ex_db (Some 0),
        mk_world [] 0 [Cursor 0, Execute 1 [''INSERT INTO t VALUES (1)''], Rollback 0] [Cursor 0, Rollback 0]
          [DB_ERROR ''MainThread'' ''INSERT INTO t VALUES (1)'' 0 ''Duplicate entry''] 2)
   \<and> fst (DB_query_all (ex_db (Some 0)) (mk_world [ok, (0, Raises (IntegrityError ''Duplicate entry'')), ok] 0 [] [] [] 1)
       [''INSERT INTO t VALUES (1)''] None) = Inl (IntegrityError ''Duplicate entry'')"
proof -
  let ?w = "mk_world [ok, (0, Raises (IntegrityError ''Duplicate entry'')), ok] 0 [] [] [] 1"
  let ?a = "[''INSERT INTO t VALUES (1)'']"
  let ?e = "IntegrityError ''Duplicate entry''"
  let ?wp = "mk_world [ok] 0 [Cursor 0, Execute 1 ?a] [Cursor 0] [] 2"
  let ?wq = "mk_world [ok] 0 [Cursor 0, Execute 1 ?a] [Cursor 0]
          [DB_ERROR ''MainThread'' ''INSERT INTO t VALUES (1)'' 0 ''Duplicate entry''] 2"
  let ?wr = "mk_world [] 0 [Cursor 0, Execute 1 ?a, Rollback 0] [Cursor 0, Rollback 0]
          [DB_ERROR ''MainThread'' ''INSERT INTO t VALUES (1)'' 0 ''Duplicate entry''] 2"
  have at: "attempt (ex_db (Some 0)) ?w ?a None = (Inl ?e, ex_db (Some 0), ?wp)"
    by (simp add: run_defs)
  have ev: "emit (error_event ?w ?a ?wp ?e) ?wp = ?wq"
    by (simp add: run_defs)
  have rb: "DB_rollback (ex_db (Some 0)) ?wq = (Inr (), ex_db (Some 0), ?wr)"
    by (simp add: DB_rollback_def run_defs)
  note t1 = integrity_caught_only_in_insert_update[of "ex_db (Some 0)" ?w ?a None "''Duplicate entry''"
      "ex_db (Some 0)" ?wp "Inr ()" "ex_db (Some 0)" ?wr, THEN conjunct2, THEN mp, OF at, unfolded ev]
  have ex: "DB_execute (ex_db (Some 0)) ?w ?a None = (Inl ?e, ex_db (Some 0), ?wq)"
    using t1 by (rule conjunct1)
  have qa: "fst (DB_query_all (ex_db (Some 0)) ?w ?a None) = Inl ?e"
    using t1 by simp
  note t2 = integrity_caught_only_in_insert_update[of "ex_db (Some 0)" ?w ?a None "''Duplicate entry''"
      "ex_db (Some 0)" ?wq "Inr ()" "ex_db (Some 0)" ?wr, THEN conjunct1, THEN mp, OF conjI, OF ex rb]
  have ins: "DB_insert (ex_db (Some 0)) ?w ?a None = (Inr None, ex_db (Some 0), ?wr)"
    using t2 by simp
  have upd: "DB_update (ex_db (Some 0)) ?w ?a None = (Inr None, ex_db (Some 0), ?wr)"
    using t2 by simp
  from at ex rb ins upd qa show ?thesis by blast
qed

text \<open>
  The claim as the specification words it fails when the rollback raises: the statement
  violates a key, the driver's \<^verbatim>\<open>rollback\<close> raises an \<^verbatim>\<open>InterfaceError\<close>, and
  \<^verbatim>\<open>insert\<close> and \<^verbatim>\<open>update\<close> raise it instead of returning \<^verbatim>\<open>None\<close>.
\<close>

theorem insert_update_rollback_raises:
  "DB_execute (ex_db (Some 0))
       (mk_world [ok, (0, Raises (IntegrityError ''Duplicate entry'')),
                  (0, Raises (OtherError ''InterfaceError'' ''(0, )''))] 0 [] [] [] 1)
       [''INSERT INTO t VALUES (1)''] None
     = (Inl (IntegrityError ''Duplicate entry''), ex_db (Some 0),
        mk_world [(0, Raises (OtherError ''InterfaceError'' ''(0, )''))] 0
          [Cursor 0, Execute 1 [''INSERT INTO t VALUES (1)'']] [Cursor 0]
          [DB_ERROR ''MainThread'' ''INSERT INTO t VALUES (1)'' 0 ''Duplicate entry''] 2)
   \<and> DB_insert (ex_db (Some 0))
       (mk_world [ok, (0, Raises (IntegrityError ''Duplicate entry'')),
                  (0, Raises (OtherError ''InterfaceError'' ''(0, )''))] 0 [] [] [] 1)
       [''INSERT INTO t VALUES (1)''] None
     = (Inl (OtherError ''InterfaceError'' ''(0, )''), ex_db (Some 0),
        mk_world [] 0 [Cursor 0, Execute 1 [''INSERT INTO t VALUES (1)''], Rollback 0] [Cursor 0]
          [DB_ERROR ''MainThread'' ''INSERT INTO t VALUES (1)'' 0 ''Duplicate entry''] 2)
   \<and> DB_update (ex_db (Some 0))
       (mk_world [ok, (0, Raises (IntegrityError ''Duplicate entry'')),
                  (0, Raises (OtherError ''InterfaceError'' ''(0, )''))] 0 [] [] [] 1)
       [''INSERT INTO t VALUES (1)''] None
     = (Inl (OtherError ''InterfaceError'' ''(0, )''), ex_db (Some 0),
        mk_world [] 0 [Cursor 0, Execute 1 [''INSERT INTO t VALUES (1)''], Rollback 0] [Cursor 0]
          [DB_ERROR ''MainThread'' ''INSERT INTO t VALUES (1)'' 0 ''Duplicate entry''] 2)"
  by (simp add: DB_insert_def DB_update_def on_error_def finally_close_def DB_rollback_def DB_execute_def run_defs)

text \<open>A database that refuses both connection attempts.\<close>

theorem unreachable_database_attribute_error_witness:
  "driver (Connect ''portal'')
       (mk_world [(1, Raises (OperationalError ''refused'')), (2, Raises (OperationalError ''refused''))] 0 [] [] [] 1)
     = (Raises (OperationalError ''refused''),
        mk_world [(2, Raises (OperationalError ''refused''))] 1 [Connect ''portal''] [] [] 1)
   \<and> connect_db ''portal''
       (mk_world [(1, Raises (OperationalError ''refused'')), (2, Raises (OperationalError ''refused''))] 0 [] [] [] 1)
     = (None, mk_world [(2, Raises (OperationalError ''refused''))] 1 [Connect ''portal''] []
                [LOG_CRITICAL ''connect db: refused''] 1)
   \<and> get_conn (ex_db None)
       (mk_world [(1, Raises (OperationalError ''refused'')), (2, Raises (OperationalError ''refused''))] 0 [] [] [] 1)
     = (None, ex_db None, mk_world [(2, Raises (OperationalError ''refused''))] 1 [Connect ''portal''] []
                [LOG_CRITICAL ''connect db: refused''] 1)
   \<and> DB_execute (ex_db None)
       (mk_world [(1, Raises (OperationalError ''refused'')), (2, Raises (OperationalError ''refused''))] 0 [] [] [] 1)
       [''SELECT 1''] None
     = (Inl (AttributeError ''NoneType object has no attribute cursor''), ex_db None,
        mk_world [] 3 [Connect ''portal'', Connect ''portal''] []
          [LOG_CRITICAL ''connect db: refused'',
           DB_RECONNECT ''MainThread'' ''SELECT 1'' 1 ''NoneType object has no attribute cursor'',
           LOG_CRITICAL ''connect db: refused''] 1)"
proof -
  let ?e = "OperationalError ''refused''"
  let ?w = "mk_world [(1, Raises ?e), (2, Raises ?e)] 0 [] [] [] 1"
  let ?wp = "mk_world [(2, Raises ?e)] 1 [Connect ''portal''] [] [] 1"
  let ?wq = "mk_world [(2, Raises ?e)] 1 [Connect ''portal''] [] [LOG_CRITICAL ''connect db: refused''] 1"
  have d: "driver (Connect ''portal'') ?w = (Raises ?e, ?wp)"
    by (simp add: driver_def mk_world_def)
  have ev: "emit (LOG_CRITICAL (''connect db: '' @ exn_str ?e)) ?wp = ?wq"
    by (simp add: emit_def mk_world_def)
  have cfg: "config (ex_db None) = ''portal''" and cn: "conn (ex_db None) = None"
    by (simp_all add: ex_db_def)
  have sc: "script ?w = (1, Raises ?e) # (2, Raises ?e) # []"
    by (simp add: mk_world_def)
  note t = unreachable_database_attribute_error[of "''portal''" ?w ?e ?wp "ex_db None" 1 ?e 2 ?e "[]" "[''SELECT 1'']",
      unfolded ev cfg]
  note t' = unreachable_database_attribute_error[of "''portal''" ?w ?e ?wq "ex_db None" 1 ?e 2 ?e "[]" "[''SELECT 1'']",
      unfolded cfg]
  have c: "connect_db ''portal'' ?w = (None, ?wq)"
    using t d by blast
  have g: "get_conn (ex_db None) ?w = (None, ex_db None, ?wq)"
    using t' cn c by blast
  have x: "DB_execute (ex_db None) ?w [''SELECT 1''] None
     = (Inl (AttributeError ''NoneType object has no attribute cursor''), ex_db None,
        mk_world [] 3 [Connect ''portal'', Connect ''portal''] []
          [LOG_CRITICAL ''connect db: refused'',
           DB_RECONNECT ''MainThread'' ''SELECT 1'' 1 ''NoneType object has no attribute cursor'',
           LOG_CRITICAL ''connect db: refused''] 1)"
    using t cn sc by (simp add: mk_world_def sql_preview_def none_has_no_def)
  from d c g x show ?thesis by blast
qed

section \<open>Properties of the call tracker\<close>

lemma req_try_registry:
  "req_try i m u c st net t = (r, t') \<Longrightarrow> active_requests t' = active_requests t"
  by (auto simp: req_try_def log_req_def Let_def split: if_splits net_reply.splits req_exn.splits)

lemma delete_absent: "k \<notin> fst ` set al \<Longrightarrow> AList.delete k al = al"
  by (induction al) auto

text \<open>
  With a token present the \<^verbatim>\<open>finally\<close> clause runs on every outcome (response,
  timeout, connection error, any other exception, unsupported method): the registry is
  what it was before the call and the last event is \<^verbatim>\<open>REQ_END\<close> with the size of
  the registry after the removal.
\<close>

lemma auth_requests_cleans_up:
  assumes fresh: "request_counter t + 1 \<notin> fst ` set (active_requests t)"
    and run: "auth_requests t method args kw_url stack thread (Some tok) net = (r, t')"
  shows "active_requests t' = active_requests t
       \<and> req_log t' \<noteq> []
       \<and> last (req_log t') = REQ_END (request_counter t + 1) (clock t' - clock t) (length (active_requests t))"
proof -
  let ?i = "request_counter t + 1"
  have "AList.delete ?i (AList.update ?i v (active_requests t)) = active_requests t" for v
    using fresh by (simp add: delete_update_same delete_absent)
  with run show ?thesis
    by (auto simp: auth_requests_def Let_def req_finally_def log_req_def
        split: prod.splits dest!: req_try_registry)
qed

text \<open>
  Without a token the exception is raised between the registration and the
  \<^verbatim>\<open>try\<close> statement: the record of the call stays in the registry and the log ends
  with \<^verbatim>\<open>REQ_ERROR\<close>.
\<close>

lemma auth_requests_no_token_general:
  "auth_requests t method args kw_url stack thread None net =
     (Inl (ReqException ''no api token''),
      t\<lparr>request_counter := request_counter t + 1,
        active_requests := AList.update (request_counter t + 1)
           \<lparr>cr_method = method, cr_url = url_of args kw_url, cr_start = clock t,
            cr_caller = find_caller stack, cr_thread = thread\<rparr> (active_requests t),
        req_log := req_log t @
           [REQ_START (request_counter t + 1) method (url_of args kw_url) (find_caller stack) thread
              (length (active_requests t)),
            REQ_ERROR (request_counter t + 1) ''no_api_token'']\<rparr>)"
  by (simp add: auth_requests_def Let_def log_req_def)

text \<open>
  Claim C1 says that every invocation of \<^verbatim>\<open>auth_requests\<close>, a missing token included,
  removes its record from the registry and emits \<^verbatim>\<open>REQ_END\<close>. On the first call of a
  process, made without a token, the call has ended with the exception
  \<^verbatim>\<open>no api token\<close>, yet the registry holds its record (size 1 with no call in
  flight) and no \<^verbatim>\<open>REQ_END\<close> was logged.
\<close>

theorem auth_requests_no_token_leaks_record:
  "auth_requests tracker_init ''GET'' [''http://127.0.0.1/api''] None [] ''MainThread'' None (0, Responds 200)
     = (Inl (ReqException ''no api token''),
        \<lparr>request_counter = 1,
         active_requests =
           [(1, \<lparr>cr_method = ''GET'', cr_url = ''http://127.0.0.1/api'', cr_start = 0,
                 cr_caller = ''unknown'', cr_thread = ''MainThread''\<rparr>)],
         req_log =
           [REQ_START 1 ''GET'' ''http://127.0.0.1/api'' ''unknown'' ''MainThread'' 0,
            REQ_ERROR 1 ''no_api_token''],
         clock = 0\<rparr>)
   \<and> length (active_requests (snd (auth_requests tracker_init ''GET'' [''http://127.0.0.1/api''] None []
          ''MainThread'' None (0, Responds 200)))) = 1"
  by (simp add: auth_requests_def Let_def log_req_def tracker_init_def url_of_def)

section \<open>Properties of the log correlation engine\<close>

lemma analyze_file_events: "analyze_file self ls = analyze_events self (recognized ls)"
  by (induction ls arbitrary: self)
     (auto simp: recognized_def analyze_line_def split: option.splits sum.splits)

lemmas handler_defs = analyze_http_start_def analyze_http_end_def analyze_req_start_def
  analyze_req_end_def analyze_slow_def analyze_timeout_def to_float_def

lemma handle_total: "\<not> event_raises d \<Longrightarrow> \<exists>s. handle self d = Inr s"
  by (cases "(self, d)" rule: handle.cases)
     (auto simp: handler_defs Let_def split: option.splits)

lemma handle_timeouts:
  "handle self d = Inr s \<Longrightarrow> timeouts s = timeouts self @ (case timeout_of d of None \<Rightarrow> [] | Some t \<Rightarrow> [t])"
  by (cases "(self, d)" rule: handle.cases)
     (auto simp: handler_defs Let_def split: option.splits if_splits)

lemma key_present: "map_of al k = Some v \<Longrightarrow> insert k (fst ` set al) = fst ` set al"
  by (auto dest: map_of_SomeD simp: rev_image_eqI)

lemma keys_update: "fst ` set (AList.update k v al) = insert k (fst ` set al)"
  by (simp add: dom_update)

lemma handle_api_keys:
  "handle self d = Inr s \<Longrightarrow>
     fst ` set (api_requests s) =
       fst ` set (api_requests self) \<union> (case d of (H_req_start, m, ts) \<Rightarrow> {py_group m 1} | _ \<Rightarrow> {})"
proof (cases "(self, d)" rule: handle.cases)
  case (3 self' m ts)
  assume "handle self d = Inr s"
  with 3 show ?thesis
    by (clarsimp simp add: handler_defs Let_def split: if_splits) (simp_all add: keys_update)
next
  case (4 self' m ts)
  assume "handle self d = Inr s"
  with 4 show ?thesis
    by (clarsimp simp add: handler_defs Let_def split: if_splits option.splits) (simp_all add: keys_update key_present)
qed (auto simp: handler_defs Let_def split: option.splits if_splits)

lemma handle_http_keys:
  "handle self d = Inr s \<Longrightarrow>
     fst ` set (http_requests s) =
       fst ` set (http_requests self) \<union> (case d of (H_http_start, m, ts) \<Rightarrow> {py_group m 1} | _ \<Rightarrow> {})"
proof (cases "(self, d)" rule: handle.cases)
  case (1 self' m ts)
  assume "handle self d = Inr s"
  with 1 show ?thesis
    by (clarsimp simp add: handler_defs Let_def split: if_splits) (simp_all add: keys_update)
next
  case (2 self' m ts)
  assume "handle self d = Inr s"
  with 2 show ?thesis
    by (clarsimp simp add: handler_defs Let_def split: if_splits option.splits) (simp_all add: keys_update key_present)
qed (auto simp: handler_defs Let_def split: option.splits if_splits)

lemma handle_distinct:
  "handle self d = Inr s \<Longrightarrow> distinct (map fst (api_requests self)) \<Longrightarrow> distinct (map fst (api_requests s))"
  by (cases "(self, d)" rule: handle.cases)
     (auto simp: handler_defs Let_def distinct_update split: option.splits if_splits)

lemma ids_of_in: "ids_of h ls = ids_in h (recognized ls)"
  by (simp add: ids_of_def)

lemma analyze_events_total:
  "list_all (\<lambda>d. \<not> event_raises d) ds \<Longrightarrow> \<exists>s. analyze_events self ds = Inr s"
proof (induction ds arbitrary: self)
  case Nil
  then show ?case by simp
next
  case (Cons d ds)
  then obtain s1 where "handle self d = Inr s1" using handle_total by fastforce
  with Cons show ?case by simp
qed

lemma analyze_events_timeouts:
  "analyze_events self ds = Inr s \<Longrightarrow> timeouts s = timeouts self @ List.map_filter timeout_of ds"
proof (induction ds arbitrary: self)
  case Nil
  then show ?case by simp
next
  case (Cons d ds)
  then obtain s1 where h: "handle self d = Inr s1" and r: "analyze_events s1 ds = Inr s"
    by (auto split: sum.splits)
  from Cons.IH[OF r] handle_timeouts[OF h] show ?case
    by (simp split: option.splits)
qed

lemma analyze_events_api_keys:
  "analyze_events self ds = Inr s \<Longrightarrow>
     fst ` set (api_requests s) = fst ` set (api_requests self) \<union> set (ids_in H_req_start ds)"
proof (induction ds arbitrary: self)
  case Nil
  then show ?case by (simp add: ids_in_def)
next
  case (Cons d ds)
  then obtain s1 where h: "handle self d = Inr s1" and r: "analyze_events s1 ds = Inr s"
    by (auto split: sum.splits)
  obtain hd m ts where d: "d = (hd, m, ts)" by (cases d) auto
  from Cons.IH[OF r] handle_api_keys[OF h] d show ?case
    by (cases hd) (auto simp: ids_in_def)
qed

lemma analyze_events_http_keys:
  "analyze_events self ds = Inr s \<Longrightarrow>
     fst ` set (http_requests s) = fst ` set (http_requests self) \<union> set (ids_in H_http_start ds)"
proof (induction ds arbitrary: self)
  case Nil
  then show ?case by (simp add: ids_in_def)
next
  case (Cons d ds)
  then obtain s1 where h: "handle self d = Inr s1" and r: "analyze_events s1 ds = Inr s"
    by (auto split: sum.splits)
  obtain hd m ts where d: "d = (hd, m, ts)" by (cases d) auto
  from Cons.IH[OF r] handle_http_keys[OF h] d show ?case
    by (cases hd) (auto simp: ids_in_def)
qed

lemma analyze_events_distinct:
  "analyze_events self ds = Inr s \<Longrightarrow> distinct (map fst (api_requests self)) \<Longrightarrow>
     distinct (map fst (api_requests s))"
proof (induction ds arbitrary: self)
  case Nil
  then show ?case by simp
next
  case (Cons d ds)
  then obtain s1 where h: "handle self d = Inr s1" and r: "analyze_events s1 ds = Inr s"
    by (auto split: sum.splits)
  from Cons.IH[OF r] handle_distinct[OF h Cons.prems(2)] show ?case by simp
qed

lemma report_timeout_count: "Timeout_count (length (timeouts s)) \<in> set (generate_report s)"
  by (simp add: generate_report_def section1_def)

text \<open>
  Claim C7. On a well-formed log the analysis completes, and the timeout list holds one
  entry for every \<^verbatim>\<open>REQ_TIMEOUT\<close> line, in order, whether or not a
  \<^verbatim>\<open>REQ_START\<close> with its id was seen: these entries are the timeout section of the
  report and their number is the reported timeout count. The dictionaries hold entries
  for the ids of start lines only. Line by line: a \<^verbatim>\<open>REQ_TIMEOUT\<close> line appends its
  entry to any analyzer state, and a \<^verbatim>\<open>REQ_END\<close> or \<^verbatim>\<open>HTTP_END\<close> line whose id has
  no entry leaves the state as it is and raises nothing.
\<close>

theorem orphan_timeout_counted_orphan_end_ignored:
  "(well_formed ls \<longrightarrow>
      (\<exists>s. analyze_file LogAnalyzer ls = Inr s
          \<and> timeouts s = timeout_entries ls
          \<and> section5 s = (if timeout_entries ls = [] then [] else [Heading 5, Dashes] @
               map (\<lambda>t. Timeout_line (hms (t_timestamp t)) (t_url t) (t_elapsed t)) (timeout_entries ls))
          \<and> Timeout_count (length (timeout_entries ls)) \<in> set (generate_report s)
          \<and> fst ` set (api_requests s) = set (ids_of H_req_start ls)
          \<and> fst ` set (http_requests s) = set (ids_of H_http_start ls)))
 \<and> (dispatch line = Some (H_timeout, m, ts) \<and> py_float (py_group m 4) = Some e \<longrightarrow>
      analyze_line self line =
        Inr (self\<lparr>timeouts := timeouts self @
               [\<lparr>t_req_id = py_group m 1, t_timestamp = ts, t_url = py_group m 3, t_elapsed = e\<rparr>]\<rparr>))
 \<and> (dispatch line = Some (H_req_end, m, ts) \<and> py_float (py_group m 2) = Some e
      \<and> py_group m 1 \<notin> fst ` set (api_requests self) \<longrightarrow> analyze_line self line = Inr self)
 \<and> (dispatch line = Some (H_http_end, m, ts) \<and> py_float (py_group m 5) = Some e
      \<and> py_group m 1 \<notin> fst ` set (http_requests self) \<longrightarrow> analyze_line self line = Inr self)"
proof (intro conjI impI)
  assume wf: "well_formed ls"
  then obtain s where s: "analyze_events LogAnalyzer (recognized ls) = Inr s"
    using analyze_events_total unfolding well_formed_def by blast
  have t: "timeouts s = timeout_entries ls"
    using analyze_events_timeouts[OF s] by (simp add: timeout_entries_def LogAnalyzer_def)
  have k: "fst ` set (api_requests s) = set (ids_of H_req_start ls)"
    using analyze_events_api_keys[OF s] by (simp add: ids_of_in LogAnalyzer_def)
  have h: "fst ` set (http_requests s) = set (ids_of H_http_start ls)"
    using analyze_events_http_keys[OF s] by (simp add: ids_of_in LogAnalyzer_def)
  have c: "Timeout_count (length (timeout_entries ls)) \<in> set (generate_report s)"
    using report_timeout_count[of s] t by simp
  have l: "section5 s = (if timeout_entries ls = [] then [] else [Heading 5, Dashes] @
               map (\<lambda>t. Timeout_line (hms (t_timestamp t)) (t_url t) (t_elapsed t)) (timeout_entries ls))"
    using t by (simp add: section5_def)
  show "\<exists>s. analyze_file LogAnalyzer ls = Inr s
          \<and> timeouts s = timeout_entries ls
          \<and> section5 s = (if timeout_entries ls = [] then [] else [Heading 5, Dashes] @
               map (\<lambda>t. Timeout_line (hms (t_timestamp t)) (t_url t) (t_elapsed t)) (timeout_entries ls))
          \<and> Timeout_count (length (timeout_entries ls)) \<in> set (generate_report s)
          \<and> fst ` set (api_requests s) = set (ids_of H_req_start ls)
          \<and> fst ` set (http_requests s) = set (ids_of H_http_start ls)"
    using s t k h c l by (auto simp: analyze_file_events)
next
  assume "dispatch line = Some (H_timeout, m, ts) \<and> py_float (py_group m 4) = Some e"
  then show "analyze_line self line =
        Inr (self\<lparr>timeouts := timeouts self @
               [\<lparr>t_req_id = py_group m 1, t_timestamp = ts, t_url = py_group m 3, t_elapsed = e\<rparr>]\<rparr>)"
    by (simp add: analyze_line_def analyze_timeout_def to_float_def)
next
  assume a: "dispatch line = Some (H_req_end, m, ts) \<and> py_float (py_group m 2) = Some e
      \<and> py_group m 1 \<notin> fst ` set (api_requests self)"
  then have "map_of (api_requests self) (py_group m 1) = None"
    by (simp add: map_of_eq_None_iff)
  with a show "analyze_line self line = Inr self"
    by (simp add: analyze_line_def analyze_req_end_def to_float_def)
next
  assume a: "dispatch line = Some (H_http_end, m, ts) \<and> py_float (py_group m 5) = Some e
      \<and> py_group m 1 \<notin> fst ` set (http_requests self)"
  then have "map_of (http_requests self) (py_group m 1) = None"
    by (simp add: map_of_eq_None_iff)
  with a show "analyze_line self line = Inr self"
    by (simp add: analyze_line_def analyze_http_end_def to_float_def)
qed

lemma handle_start_fields:
  "handle self (h, m, ts) = Inr s \<Longrightarrow>
     map_option start_fields (map_of (api_requests s) k) =
       (if h = H_req_start \<and> py_group m 1 = k then Some (new_fields (m, ts))
        else map_option start_fields (map_of (api_requests self) k))"
  by (cases h)
     (auto simp: handler_defs Let_def update_conv' start_fields_def new_fields_def
        split: option.splits if_splits)

lemma analyze_events_start_fields:
  "analyze_events self ds = Inr s \<Longrightarrow>
     map_option start_fields (map_of (api_requests s) k) =
       (case last_start k ds of
          Some mt \<Rightarrow> Some (new_fields mt)
        | None \<Rightarrow> map_option start_fields (map_of (api_requests self) k))"
proof (induction ds arbitrary: self)
  case Nil
  then show ?case by simp
next
  case (Cons d ds)
  obtain h m ts where d: "d = (h, m, ts)" by (cases d) auto
  from Cons.prems d obtain s1 where h: "handle self (h, m, ts) = Inr s1" and r: "analyze_events s1 ds = Inr s"
    by (auto split: sum.splits)
  from Cons.IH[OF r] handle_start_fields[OF h] d show ?case
    by (auto split: option.splits)
qed

lemma length_update:
  "length (AList.update k v al) = (if k \<in> fst ` set al then length al else Suc (length al))"
  by (induction al) auto

lemma length_keys: "distinct (map fst al) \<Longrightarrow> length al = card (fst ` set al)"
  using distinct_card[of "map fst al"] by simp

text \<open>
  Claim C9. API calls are keyed by id and the last write wins. On a well-formed log the
  number of entries, which the report prints as the total of API calls, is the number of
  distinct ids of \<^verbatim>\<open>REQ_START\<close> lines, and every entry carries the fields of the
  last \<^verbatim>\<open>REQ_START\<close> line of its id. When an id repeats, that number is smaller than
  the number of \<^verbatim>\<open>REQ_START\<close> lines. Line by line: a \<^verbatim>\<open>REQ_START\<close> line replaces
  the entry of its id by its own fields, and the dictionary grows only if the id is new.
\<close>

theorem api_requests_last_write_wins:
  "(well_formed ls \<longrightarrow>
      (\<exists>s. analyze_file LogAnalyzer ls = Inr s
          \<and> length (api_requests s) = card (set (ids_of H_req_start ls))
          \<and> section1 s ! 3 = Api_total (card (set (ids_of H_req_start ls)))
          \<and> (\<forall>k. map_option start_fields (map_of (api_requests s) k)
                   = map_option new_fields (last_start k (recognized ls)))))
 \<and> (\<not> distinct (ids_of H_req_start ls) \<longrightarrow>
      card (set (ids_of H_req_start ls)) < length (ids_of H_req_start ls))
 \<and> (dispatch line = Some (H_req_start, m, ts) \<longrightarrow>
      (\<exists>s'. analyze_line self line = Inr s'
          \<and> map_of (api_requests s') (py_group m 1) =
              Some \<lparr>a_start = ts, a_method = py_group m 2, a_url = py_group m 3, a_caller = py_group m 4,
                    a_active_count_start = py_int (py_group m 6), a_end = None, a_elapsed = None\<rparr>
          \<and> length (api_requests s') =
              (if py_group m 1 \<in> fst ` set (api_requests self) then length (api_requests self)
               else Suc (length (api_requests self)))))"
proof (intro conjI impI)
  assume wf: "well_formed ls"
  then obtain s where s: "analyze_events LogAnalyzer (recognized ls) = Inr s"
    using analyze_events_total unfolding well_formed_def by blast
  have d: "distinct (map fst (api_requests s))"
    using analyze_events_distinct[OF s] by (simp add: LogAnalyzer_def)
  have k: "fst ` set (api_requests s) = set (ids_of H_req_start ls)"
    using analyze_events_api_keys[OF s] by (simp add: ids_of_in LogAnalyzer_def)
  have l: "length (api_requests s) = card (set (ids_of H_req_start ls))"
    using length_keys[OF d] k by simp
  have r: "section1 s ! 3 = Api_total (card (set (ids_of H_req_start ls)))"
    using l by (simp add: section1_def)
  have f: "\<forall>k. map_option start_fields (map_of (api_requests s) k)
                   = map_option new_fields (last_start k (recognized ls))"
    using analyze_events_start_fields[OF s] by (auto simp: LogAnalyzer_def split: option.splits)
  show "\<exists>s. analyze_file LogAnalyzer ls = Inr s
          \<and> length (api_requests s) = card (set (ids_of H_req_start ls))
          \<and> section1 s ! 3 = Api_total (card (set (ids_of H_req_start ls)))
          \<and> (\<forall>k. map_option start_fields (map_of (api_requests s) k)
                   = map_option new_fields (last_start k (recognized ls)))"
    using s l r f by (auto simp: analyze_file_events)
next
  assume "\<not> distinct (ids_of H_req_start ls)"
  then show "card (set (ids_of H_req_start ls)) < length (ids_of H_req_start ls)"
    using card_length[of "ids_of H_req_start ls"] card_distinct[of "ids_of H_req_start ls"]
    by linarith
next
  assume "dispatch line = Some (H_req_start, m, ts)"
  then show "\<exists>s'. analyze_line self line = Inr s'
          \<and> map_of (api_requests s') (py_group m 1) =
              Some \<lparr>a_start = ts, a_method = py_group m 2, a_url = py_group m 3, a_caller = py_group m 4,
                    a_active_count_start = py_int (py_group m 6), a_end = None, a_elapsed = None\<rparr>
          \<and> length (api_requests s') =
              (if py_group m 1 \<in> fst ` set (api_requests self) then length (api_requests self)
               else Suc (length (api_requests self)))"
    by (simp add: analyze_line_def analyze_req_start_def Let_def update_conv' length_update)
qed

lemma run_analyzer_events:
  "run_analyzer ls =
     (case analyze_events LogAnalyzer (recognized ls) of Inl e \<Rightarrow> Inl e | Inr s \<Rightarrow> Inr (generate_report s))"
  by (simp add: run_analyzer_def analyze_file_events)

text \<open>
  Claim C6. A log whose recognized lines are exactly three \<^verbatim>\<open>REQ_START\<close> lines with
  distinct ids and the active counts 0, 1 and 2 gives this report: concurrency peak 2
  (in the overall counts and as the maximum of section 6) and mean concurrency 1.
\<close>

theorem three_starts_peak_and_mean:
  assumes only: "recognized ls = [(H_req_start, m1, ts1), (H_req_start, m2, ts2), (H_req_start, m3, ts3)]"
    and ids: "distinct [py_group m1 1, py_group m2 1, py_group m3 1]"
    and counts: "py_int (py_group m1 6) = 0" "py_int (py_group m2 6) = 1" "py_int (py_group m3 6) = 2"
  shows "run_analyzer ls =
     Inr ([Rule, Title, Rule,
           Heading 1, Dashes, Http_total 0, Api_total 3, Slow_count 0, Timeout_count 0, Peak 2,
           Heading 2, Dashes,
           Heading 3, Dashes,
           Heading 6, Dashes, Conc_mean 1, Conc_max 2, Dist_head,
           Dist_line 0 1 [], Dist_line 1 1 [], Dist_line 2 1 [],
           Heading 7, Dashes, No_findings,
           Advice 0, Advice 1, Advice 2, Advice 3, Advice 4, Rule])"
proof -
  let ?r1 = "\<lparr>a_start = ts1, a_method = py_group m1 2, a_url = py_group m1 3, a_caller = py_group m1 4,
              a_active_count_start = 0, a_end = None, a_elapsed = None\<rparr>"
  let ?r2 = "\<lparr>a_start = ts2, a_method = py_group m2 2, a_url = py_group m2 3, a_caller = py_group m2 4,
              a_active_count_start = 1, a_end = None, a_elapsed = None\<rparr>"
  let ?r3 = "\<lparr>a_start = ts3, a_method = py_group m3 2, a_url = py_group m3 3, a_caller = py_group m3 4,
              a_active_count_start = 2, a_end = None, a_elapsed = None\<rparr>"
  let ?s = "LogAnalyzer\<lparr>api_requests := [(py_group m1 1, ?r1), (py_group m2 1, ?r2), (py_group m3 1, ?r3)],
                        concurrent_peak := 2\<rparr>"
  have a: "analyze_events LogAnalyzer (recognized ls) = Inr ?s"
    using ids counts unfolding only
    by (simp add: analyze_req_start_def Let_def LogAnalyzer_def)
  have s1: "section1 ?s = [Heading 1, Dashes, Http_total 0, Api_total 3, Slow_count 0, Timeout_count 0, Peak 2]"
    by (simp add: section1_def LogAnalyzer_def)
  have s2: "section2 ?s = [Heading 2, Dashes]"
    by (simp add: section2_def http_elapsed_def LogAnalyzer_def)
  have ae: "api_elapsed ?s = []"
    by (simp add: api_elapsed_def LogAnalyzer_def)
  have s3: "section3 ?s = [Heading 3, Dashes]"
    using ae by (simp add: section3_def)
  have s4: "section4 ?s = []" and s5: "section5 ?s = []"
    by (simp_all add: section4_def section5_def LogAnalyzer_def)
  have ac: "active_counts ?s = [0, 1, 2]"
    by (simp add: active_counts_def)
  have s6: "section6 ?s = [Heading 6, Dashes, Conc_mean 1, Conc_max 2, Dist_head,
           Dist_line 0 1 [], Dist_line 1 1 [], Dist_line 2 1 []]"
    using ac by (simp add: section6_def py_max_def)
  have f: "findings ?s = []"
    using ae by (simp add: findings_def slow_callers_def LogAnalyzer_def)
  have s7: "section7 ?s = [Heading 7, Dashes, No_findings, Advice 0, Advice 1, Advice 2, Advice 3, Advice 4, Rule]"
    using f by (simp add: section7_def)
  show ?thesis
    using s1 s2 s3 s4 s5 s6 s7 unfolding run_analyzer_events a
    by (simp add: generate_report_def)
qed

text \<open>A timeout, an end of a call and an end of a request, none of them started.\<close>

theorem orphan_timeout_counted_orphan_end_ignored_witness:
  "well_formed
     [''2024-01-01 00:00:04 [REQ_TIMEOUT] id=77 method=GET url=/t elapsed=30.001s caller=c error=e'',
      ''2024-01-01 00:00:05 [REQ_END] id=5 elapsed=1.000s active_count=0'',
      ''2024-01-01 00:00:06 [HTTP_END] request_id=9 method=GET path=/x status=200 elapsed=0.250s'']
   \<and> analyze_file LogAnalyzer
     [''2024-01-01 00:00:04 [REQ_TIMEOUT] id=77 method=GET url=/t elapsed=30.001s caller=c error=e'',
      ''2024-01-01 00:00:05 [REQ_END] id=5 elapsed=1.000s active_count=0'',
      ''2024-01-01 00:00:06 [HTTP_END] request_id=9 method=GET path=/x status=200 elapsed=0.250s'']
     = Inr (LogAnalyzer\<lparr>timeouts :=
         [\<lparr>t_req_id = ''77'', t_timestamp = ts0 4, t_url = ''/t'', t_elapsed = 30001 / 1000\<rparr>]\<rparr>)
   \<and> analyze_line LogAnalyzer
       ''2024-01-01 00:00:04 [REQ_TIMEOUT] id=77 method=GET url=/t elapsed=30.001s caller=c error=e''
     = Inr (LogAnalyzer\<lparr>timeouts :=
         [\<lparr>t_req_id = ''77'', t_timestamp = ts0 4, t_url = ''/t'', t_elapsed = 30001 / 1000\<rparr>]\<rparr>)
   \<and> analyze_line LogAnalyzer ''2024-01-01 00:00:05 [REQ_END] id=5 elapsed=1.000s active_count=0''
     = Inr LogAnalyzer
   \<and> analyze_line LogAnalyzer
       ''2024-01-01 00:00:06 [HTTP_END] request_id=9 method=GET path=/x status=200 elapsed=0.250s''
     = Inr LogAnalyzer"
proof -
  let ?a = "''2024-01-01 00:00:04 [REQ_TIMEOUT] id=77 method=GET url=/t elapsed=30.001s caller=c error=e''"
  let ?b = "''2024-01-01 00:00:05 [REQ_END] id=5 elapsed=1.000s active_count=0''"
  let ?c = "''2024-01-01 00:00:06 [HTTP_END] request_id=9 method=GET path=/x status=200 elapsed=0.250s''"
  let ?ma = "[''77'', ''GET'', ''/t'', ''30.001'']"
  let ?mb = "[''5'', ''1.000'']"
  let ?mc = "[''9'', ''GET'', ''/x'', ''200'', ''0.250'']"
  have da: "dispatch ?a = Some (H_timeout, ?ma, ts0 4)" by code_simp
  have db: "dispatch ?b = Some (H_req_end, ?mb, ts0 5)" by code_simp
  have dc: "dispatch ?c = Some (H_http_end, ?mc, ts0 6)" by code_simp
  have fa: "py_float (py_group ?ma 4) = Some (30001 / 1000)" by code_simp
  have fb: "py_float (py_group ?mb 2) = Some 1" by code_simp
  have fc: "py_float (py_group ?mc 5) = Some (1 / 4)" by code_simp
  have wf: "well_formed [?a, ?b, ?c]"
    by (simp add: well_formed_def recognized_def da db dc fa fb fc)
  have ka: "py_group ?mb 1 \<notin> fst ` set (api_requests LogAnalyzer)"
    and kh: "py_group ?mc 1 \<notin> fst ` set (http_requests LogAnalyzer)"
    by (simp_all add: LogAnalyzer_def)
  note t = orphan_timeout_counted_orphan_end_ignored
  have la: "analyze_line LogAnalyzer ?a = Inr (LogAnalyzer\<lparr>timeouts :=
         [\<lparr>t_req_id = ''77'', t_timestamp = ts0 4, t_url = ''/t'', t_elapsed = 30001 / 1000\<rparr>]\<rparr>)"
    using t[of _ ?a ?ma "ts0 4" "30001 / 1000" LogAnalyzer] da fa
    by (simp add: py_group_def LogAnalyzer_def)
  have lb: "analyze_line LogAnalyzer ?b = Inr LogAnalyzer"
    using t[of _ ?b ?mb "ts0 5" 1 LogAnalyzer] db fb ka by blast
  have lc: "analyze_line LogAnalyzer ?c = Inr LogAnalyzer"
    using t[of _ ?c ?mc "ts0 6" "1 / 4" LogAnalyzer] dc fc kh by blast
  have "analyze_file LogAnalyzer [?a, ?b, ?c] = Inr (LogAnalyzer\<lparr>timeouts :=
         [\<lparr>t_req_id = ''77'', t_timestamp = ts0 4, t_url = ''/t'', t_elapsed = 30001 / 1000\<rparr>]\<rparr>)"
    using la by (simp add: analyze_line_def db dc fb fc analyze_req_end_def analyze_http_end_def
        to_float_def LogAnalyzer_def)
  with wf la lb lc show ?thesis by blast
qed

text \<open>Two starts of call 1: the entry is that of the second.\<close>

theorem api_requests_last_write_wins_witness:
  "well_formed
     [''2024-01-01 00:00:00 [REQ_START] id=1 method=GET url=/a caller=c thread=t active_count=0'',
      ''2024-01-01 00:00:01 [REQ_START] id=1 method=POST url=/b caller=d thread=t active_count=1'']
   \<and> \<not> distinct (ids_of H_req_start
     [''2024-01-01 00:00:00 [REQ_START] id=1 method=GET url=/a caller=c thread=t active_count=0'',
      ''2024-01-01 00:00:01 [REQ_START] id=1 method=POST url=/b caller=d thread=t active_count=1''])
   \<and> card (set (ids_of H_req_start
     [''2024-01-01 00:00:00 [REQ_START] id=1 method=GET url=/a caller=c thread=t active_count=0'',
      ''2024-01-01 00:00:01 [REQ_START] id=1 method=POST url=/b caller=d thread=t active_count=1''])) = 1
   \<and> (\<exists>s. analyze_file LogAnalyzer
     [''2024-01-01 00:00:00 [REQ_START] id=1 method=GET url=/a caller=c thread=t active_count=0'',
      ''2024-01-01 00:00:01 [REQ_START] id=1 method=POST url=/b caller=d thread=t active_count=1''] = Inr s
       \<and> length (api_requests s) = 1
       \<and> section1 s ! 3 = Api_total 1
       \<and> map_option start_fields (map_of (api_requests s) ''1'') = Some (ts0 1, ''POST'', ''/b'', ''d'', 1))"
proof -
  let ?a = "''2024-01-01 00:00:00 [REQ_START] id=1 method=GET url=/a caller=c thread=t active_count=0''"
  let ?b = "''2024-01-01 00:00:01 [REQ_START] id=1 method=POST url=/b caller=d thread=t active_count=1''"
  have da: "dispatch ?a = Some (H_req_start, [''1'', ''GET'', ''/a'', ''c'', ''t'', ''0''], ts0 0)"
    by code_simp
  have db: "dispatch ?b = Some (H_req_start, [''1'', ''POST'', ''/b'', ''d'', ''t'', ''1''], ts0 1)"
    by code_simp
  have rc: "recognized [?a, ?b] =
      [(H_req_start, [''1'', ''GET'', ''/a'', ''c'', ''t'', ''0''], ts0 0),
       (H_req_start, [''1'', ''POST'', ''/b'', ''d'', ''t'', ''1''], ts0 1)]"
    by (simp add: recognized_def da db)
  have wf: "well_formed [?a, ?b]"
    by (simp add: well_formed_def rc)
  have ids: "ids_of H_req_start [?a, ?b] = [''1'', ''1'']"
    by (simp add: ids_of_def ids_in_def rc py_group_def)
  have pi: "py_int ''1'' = 1" by code_simp
  have ls: "map_option new_fields (last_start ''1'' (recognized [?a, ?b])) = Some (ts0 1, ''POST'', ''/b'', ''d'', 1)"
    by (simp add: rc new_fields_def py_group_def pi)
  from api_requests_last_write_wins[of "[?a, ?b]"] wf obtain s where
    s: "analyze_file LogAnalyzer [?a, ?b] = Inr s"
       "length (api_requests s) = card (set (ids_of H_req_start [?a, ?b]))"
       "section1 s ! 3 = Api_total (card (set (ids_of H_req_start [?a, ?b])))"
       "\<forall>k. map_option start_fields (map_of (api_requests s) k)
                   = map_option new_fields (last_start k (recognized [?a, ?b]))"
    by blast
  have c: "card (set (ids_of H_req_start [?a, ?b])) = 1" by (simp add: ids)
  have nd: "\<not> distinct (ids_of H_req_start [?a, ?b])" by (simp add: ids)
  from s c ls have "analyze_file LogAnalyzer [?a, ?b] = Inr s \<and> length (api_requests s) = 1
       \<and> section1 s ! 3 = Api_total 1
       \<and> map_option start_fields (map_of (api_requests s) ''1'') = Some (ts0 1, ''POST'', ''/b'', ''d'', 1)"
    by simp
  with wf nd c show ?thesis by blast
qed

text \<open>Three starts and a line of noise.\<close>

theorem three_starts_peak_and_mean_witness:
  "recognized
     [''2024-01-01 00:00:00 [REQ_START] id=1 method=GET url=/a caller=c thread=t active_count=0'',
      ''a line without a time stamp'',
      ''2024-01-01 00:00:01 [REQ_START] id=2 method=GET url=/b caller=c thread=t active_count=1'',
      ''2024-01-01 00:00:02 [REQ_START] id=3 method=GET url=/a caller=c thread=t active_count=2'']
     = [(H_req_start, [''1'', ''GET'', ''/a'', ''c'', ''t'', ''0''], ts0 0),
        (H_req_start, [''2'', ''GET'', ''/b'', ''c'', ''t'', ''1''], ts0 1),
        (H_req_start, [''3'', ''GET'', ''/a'', ''c'', ''t'', ''2''], ts0 2)]
   \<and> run_analyzer
     [''2024-01-01 00:00:00 [REQ_START] id=1 method=GET url=/a caller=c thread=t active_count=0'',
      ''a line without a time stamp'',
      ''2024-01-01 00:00:01 [REQ_START] id=2 method=GET url=/b caller=c thread=t active_count=1'',
      ''2024-01-01 00:00:02 [REQ_START] id=3 method=GET url=/a caller=c thread=t active_count=2'']
     = Inr ([Rule, Title, Rule,
           Heading 1, Dashes, Http_total 0, Api_total 3, Slow_count 0, Timeout_count 0, Peak 2,
           Heading 2, Dashes,
           Heading 3, Dashes,
           Heading 6, Dashes, Conc_mean 1, Conc_max 2, Dist_head,
           Dist_line 0 1 [], Dist_line 1 1 [], Dist_line 2 1 [],
           Heading 7, Dashes, No_findings,
           Advice 0, Advice 1, Advice 2, Advice 3, Advice 4, Rule])"
proof -
  let ?a = "''2024-01-01 00:00:00 [REQ_START] id=1 method=GET url=/a caller=c thread=t active_count=0''"
  let ?n = "''a line without a time stamp''"
  let ?b = "''2024-01-01 00:00:01 [REQ_START] id=2 method=GET url=/b caller=c thread=t active_count=1''"
  let ?c = "''2024-01-01 00:00:02 [REQ_START] id=3 method=GET url=/a caller=c thread=t active_count=2''"
  let ?ma = "[''1'', ''GET'', ''/a'', ''c'', ''t'', ''0'']"
  let ?mb = "[''2'', ''GET'', ''/b'', ''c'', ''t'', ''1'']"
  let ?mc = "[''3'', ''GET'', ''/a'', ''c'', ''t'', ''2'']"
  have da: "dispatch ?a = Some (H_req_start, ?ma, ts0 0)" by code_simp
  have dn: "dispatch ?n = None" by code_simp
  have db: "dispatch ?b = Some (H_req_start, ?mb, ts0 1)" by code_simp
  have dc: "dispatch ?c = Some (H_req_start, ?mc, ts0 2)" by code_simp
  have rc: "recognized [?a, ?n, ?b, ?c] =
      [(H_req_start, ?ma, ts0 0), (H_req_start, ?mb, ts0 1), (H_req_start, ?mc, ts0 2)]"
    by (simp add: recognized_def da dn db dc)
  have ids: "distinct [py_group ?ma 1, py_group ?mb 1, py_group ?mc 1]"
    by (simp add: py_group_def)
  have c0: "py_int (py_group ?ma 6) = 0" and c1: "py_int (py_group ?mb 6) = 1"
    and c2: "py_int (py_group ?mc 6) = 2"
    by code_simp+
  from three_starts_peak_and_mean[OF rc ids c0 c1 c2] rc show ?thesis by blast
qed

end
